theory Spec2Isabelle
  imports Main
begin

section \<open>The AKS service target (cli/azd/pkg/project/service\_target\_aks.go)\<close>

text \<open>
  A shallow embedding of the AKS service target of the Azure Developer CLI: the readiness
  predicates of the three resource waits, the endpoint resolver, the deploy orchestrator and
  the cluster-context bootstrap. Collaborators that live outside the file (the kubectl
  wrapper, the environment, the cloud services) appear as records of their observable
  behaviour; functions of the Go standard library that the file calls are parameters.
\<close>

subsection \<open>Errors and results\<close>

text \<open>
  A Go \<open>error\<close> value: the sentinel \<open>kubectl.ErrResourceNotFound\<close>, a fresh error made by
  \<open>errors.New\<close> (or one coming from a collaborator), and \<open>fmt.Errorf("... %w", err)\<close>, which
  wraps an inner error behind a message.
\<close>

datatype error = ErrResourceNotFound | ErrNew string | ErrWrap string error

text \<open>\<open>errors.Is(err, target)\<close>: the target is met somewhere along the chain of wrapped errors.\<close>

fun errors_Is :: "error \<Rightarrow> error \<Rightarrow> bool" where
  "errors_Is (ErrWrap msg inner) target = (ErrWrap msg inner = target \<or> errors_Is inner target)"
| "errors_Is err target = (err = target)"

text \<open>
  The outcome of a function that returns \<open>(value, error)\<close> and may also stop with a run-time
  panic (an index out of range): \<open>Panic\<close>, the returned error, or the returned value.
\<close>

datatype 'a result = Panic | Err error | Ok 'a

subsection \<open>Strings\<close>

text \<open>\<open>strings.Contains(s, substr)\<close>.\<close>

fun strings_Contains :: "string \<Rightarrow> string \<Rightarrow> bool" where
  "strings_Contains [] substr = (substr = [])"
| "strings_Contains (c # s) substr =
     (take (length substr) (c # s) = substr \<or> strings_Contains s substr)"

text \<open>\<open>strings.Split(s, sep)\<close> for a separator of one character; the result is never empty.\<close>

fun strings_Split :: "string \<Rightarrow> char \<Rightarrow> string list" where
  "strings_Split [] sep = [[]]"
| "strings_Split (c # s) sep =
     (if c = sep then [] # strings_Split s sep
      else (case strings_Split s sep of
              [] \<Rightarrow> [[c]]
            | part # parts \<Rightarrow> (c # part) # parts))"

text \<open>The verb \<open>%d\<close> of \<open>fmt.Sprintf\<close> on an \<open>int\<close>: decimal digits, with a sign when negative.\<close>

definition digitChar :: "nat \<Rightarrow> char" where
  "digitChar d = ''0123456789'' ! d"

fun digits :: "nat \<Rightarrow> string" where
  "digits n = (if n < 10 then [digitChar n] else digits (n div 10) @ [digitChar (n mod 10)])"

declare digits.simps [simp del]

definition Sprintf_d :: "int \<Rightarrow> string" where
  "Sprintf_d i = (if i < 0 then ''-'' @ digits (nat (- i)) else digits (nat i))"

subsection \<open>Functions of the Go standard library\<close>

text \<open>
  \<open>url.JoinPath(base, elem)\<close> and \<open>filepath.Join(a, b)\<close> belong to the Go standard library,
  not to the repository. The functions that call them take them as a parameter.
\<close>

record stdlib =
  url_JoinPath :: "string \<Rightarrow> string \<Rightarrow> error + string"
  filepath_Join :: "string \<Rightarrow> string \<Rightarrow> string"

subsection \<open>Cluster resources (package kubectl)\<close>

text \<open>
  The snapshots read from the cluster. Their declarations are in package \<open>kubectl\<close>; the
  fields below are the ones the service target reads, under the names it reads them by.
\<close>

record ResourceMetadata =
  Name :: string

record ('spec, 'status) Resource =
  Metadata :: ResourceMetadata
  Spec :: 'spec
  Status :: 'status

record DeploymentSpec =
  Replicas :: int

record DeploymentStatus =
  AvailableReplicas :: int

type_synonym Deployment = "(DeploymentSpec, DeploymentStatus) Resource"

record ServicePort =
  Port :: int

record ServiceSpec =
  Type :: string
  ClusterIps :: "string list"
  Ports :: "ServicePort list"

record LoadBalancerIngress =
  Ip :: string

record LoadBalancer =
  Ingress :: "LoadBalancerIngress list"

record ServiceStatus =
  LoadBalancer :: LoadBalancer

type_synonym Service = "(ServiceSpec, ServiceStatus) Resource"

text \<open>A rule's host is a \<open>*string\<close>: \<open>None\<close> is the nil pointer.\<close>

record IngressRule =
  Host :: "string option"

text \<open>Of the TLS entries only their number is read, so their type is left open.\<close>

record 'tls IngressSpec =
  Tls :: "'tls list"
  Rules :: "IngressRule list"

record IngressStatus =
  LoadBalancer :: LoadBalancer

type_synonym 'tls Ingress = "('tls IngressSpec, IngressStatus) Resource"

text \<open>
  Modelled from the spec: the two values of \<open>kubectl.ServiceType\<close> (a string type declared
  in package \<open>kubectl\<close>) that the file compares with. Section 3 of the specification names
  them \<open>LoadBalancer\<close> and \<open>ClusterIP\<close>, as the tags of the endpoints do.
\<close>

definition ServiceTypeLoadBalancer :: string where
  "ServiceTypeLoadBalancer = ''LoadBalancer''"

definition ServiceTypeClusterIp :: string where
  "ServiceTypeClusterIp = ''ClusterIP''"

text \<open>
  A parsed kubeconfig document: of its contexts, the namespace that the bootstrap overwrites.
\<close>

record KubeContextDetails =
  Namespace :: string

record KubeContext =
  Context :: KubeContextDetails

record KubeConfig =
  Contexts :: "KubeContext list"

text \<open>
  The kubectl collaborator as the service target observes it. For each resource kind, the
  list holds what the successive poll cycles of one wait read from the cluster, up to the
  deadline: a failed query, or the resources of that kind. The other fields give the outcome
  of each command and of the kubeconfig functions of the package.
\<close>

record 'tls KubectlCli =
  deployments :: "(error + Deployment list) list"
  services :: "(error + Service list) list"
  ingresses :: "(error + 'tls Ingress list) list"
  RolloutStatus :: "string \<Rightarrow> error option"
  Apply :: "string \<Rightarrow> error option"
  CreateNamespace :: "string \<Rightarrow> error + string"
  ApplyWithStdIn :: "string \<Rightarrow> error option"
  ConfigUseContext :: "string \<Rightarrow> error option"
  NewKubeConfigManager :: "error option"
  ParseKubeConfig :: "string \<Rightarrow> error + KubeConfig"
  AddOrUpdateContext :: "string \<Rightarrow> KubeConfig \<Rightarrow> error + string"

text \<open>
  Modelled from the spec: \<open>kubectl.WaitForResource\<close> is declared in package \<open>kubectl\<close>,
  outside the file. Section 4.1 of the specification: on each poll cycle, fetch the resources
  of the kind; filter by the match predicate; if none matches, keep polling; if some match,
  return the first ready one; if no match ever appears before the deadline, fail with
  \<open>ErrResourceNotFound\<close>. A failed query ends the wait with its error; matches that never
  become ready end it with a timeout error.
\<close>

fun pollCycles ::
  "(error + 'r list) list \<Rightarrow> ('r \<Rightarrow> bool) \<Rightarrow> ('r \<Rightarrow> bool) \<Rightarrow> bool \<Rightarrow> error + 'r" where
  "pollCycles [] match ready matched =
     Inl (if matched then ErrNew ''timed out waiting for resource'' else ErrResourceNotFound)"
| "pollCycles (Inl err # cycles) match ready matched = Inl err"
| "pollCycles (Inr resources # cycles) match ready matched =
     (case filter match resources of
        [] \<Rightarrow> pollCycles cycles match ready matched
      | m # ms \<Rightarrow>
          (case find ready (m # ms) of
             Some resource \<Rightarrow> Inr resource
           | None \<Rightarrow> pollCycles cycles match ready True))"

definition WaitForResource ::
  "(error + 'r list) list \<Rightarrow> ('r \<Rightarrow> bool) \<Rightarrow> ('r \<Rightarrow> bool) \<Rightarrow> error + 'r" where
  "WaitForResource cycles match ready = pollCycles cycles match ready False"

subsection \<open>Service configuration\<close>

record AksIngressOptions =
  Name :: string
  RelativePath :: string

record AksDeploymentOptions =
  Name :: string

record AksServiceOptions =
  Name :: string

record AksOptions =
  Namespace :: string
  DeploymentPath :: string
  Ingress :: AksIngressOptions
  Deployment :: AksDeploymentOptions
  Service :: AksServiceOptions

text \<open>Of \<open>ProjectConfig\<close> and \<open>ServiceConfig\<close> (package \<open>project\<close>) the fields the file reads.\<close>

record ProjectConfig =
  Name :: string

record ServiceConfig =
  Name :: string
  RelativePath :: string
  K8s :: AksOptions
  Project :: ProjectConfig

text \<open>
  The package handed to \<open>Deploy\<close> and the result it assembles (package \<open>project\<close>).
\<close>

record ServicePackageResult =
  PackagePath :: string

record ServiceDeployResult =
  Package :: ServicePackageResult
  TargetResourceId :: string
  Kind :: string
  Details :: "Deployment option"
  Endpoints :: "string list"

subsection \<open>Waiting for a service or an ingress\<close>

text \<open>
  The loop of the service's readiness predicate: the first non-empty IP among the
  load-balancer entries, or the empty string of the uninitialised variable.
\<close>

fun firstIpAddress :: "LoadBalancerIngress list \<Rightarrow> string" where
  "firstIpAddress [] = ''''"
| "firstIpAddress (config # configs) =
     (if Ip config \<noteq> '''' then Ip config else firstIpAddress configs)"

definition waitForService :: "'tls KubectlCli \<Rightarrow> string \<Rightarrow> error + Service" where
  "waitForService kubectl serviceNameFilter =
     WaitForResource (services kubectl)
       (\<lambda>service. strings_Contains (ResourceMetadata.Name (Metadata service)) serviceNameFilter)
       (\<lambda>service.
          if Type (Spec service) \<noteq> ServiceTypeLoadBalancer then True
          else firstIpAddress (LoadBalancer.Ingress (ServiceStatus.LoadBalancer (Status service))) \<noteq> '''')"

text \<open>The loop of the ingress's readiness predicate: some entry has a non-empty IP.\<close>

fun anyIpAddress :: "LoadBalancerIngress list \<Rightarrow> bool" where
  "anyIpAddress [] = False"
| "anyIpAddress (config # configs) = (if Ip config \<noteq> '''' then True else anyIpAddress configs)"

definition waitForIngress :: "'tls KubectlCli \<Rightarrow> string \<Rightarrow> error + 'tls Ingress" where
  "waitForIngress kubectl ingressNameFilter =
     WaitForResource (ingresses kubectl)
       (\<lambda>ingress. strings_Contains (ResourceMetadata.Name (Metadata ingress)) ingressNameFilter)
       (\<lambda>ingress. anyIpAddress (LoadBalancer.Ingress (IngressStatus.LoadBalancer (Status ingress))))"

subsection \<open>Endpoint resolution\<close>

text \<open>
  The loop of the ClusterIP branch: \<open>index\<close> runs with the cluster IPs, and
  \<open>service.Spec.Ports[index]\<close> panics when the index is not below the number of ports.
\<close>

fun clusterIpEndpointsLoop ::
  "string list \<Rightarrow> nat \<Rightarrow> ServicePort list \<Rightarrow> string list \<Rightarrow> string list result" where
  "clusterIpEndpointsLoop [] index ports endpoints = Ok endpoints"
| "clusterIpEndpointsLoop (ip # ips) index ports endpoints =
     (if index < length ports then
        clusterIpEndpointsLoop ips (Suc index) ports
          (endpoints @
             [''http://'' @ ip @ '':'' @ Sprintf_d (Port (ports ! index)) @
              '', (Service, Type: ClusterIP)''])
      else Panic)"

definition getServiceEndpoints ::
  "'tls KubectlCli \<Rightarrow> ServiceConfig \<Rightarrow> string \<Rightarrow> string list result" where
  "getServiceEndpoints kubectl serviceConfig serviceNameFilter =
     (case waitForService kubectl serviceNameFilter of
        Inl err \<Rightarrow> Err err
      | Inr service \<Rightarrow>
          if Type (Spec service) = ServiceTypeLoadBalancer then
            Ok (map (\<lambda>resource. ''http://'' @ Ip resource @ '', (Service, Type: LoadBalancer)'')
                  (LoadBalancer.Ingress (ServiceStatus.LoadBalancer (Status service))))
          else if Type (Spec service) = ServiceTypeClusterIp then
            clusterIpEndpointsLoop (ClusterIps (Spec service)) 0 (Ports (Spec service)) []
          else Ok [])"

text \<open>
  The loop of the ingress endpoints: \<open>index\<close> runs with the load-balancer entries, and
  \<open>ingress.Spec.Rules[index]\<close> panics when the index is not below the number of rules. An
  error of \<open>url.JoinPath\<close> ends the loop with that error, wrapped.
\<close>

fun ingressEndpointsLoop ::
  "stdlib \<Rightarrow> string \<Rightarrow> string \<Rightarrow> LoadBalancerIngress list \<Rightarrow> nat \<Rightarrow> IngressRule list \<Rightarrow>
   string list \<Rightarrow> string list result" where
  "ingressEndpointsLoop lib protocol relativePath [] index rules endpoints = Ok endpoints"
| "ingressEndpointsLoop lib protocol relativePath (resource # resources) index rules endpoints =
     (if index < length rules then
        (let baseUrl =
               (case Host (rules ! index) of
                  None \<Rightarrow> protocol @ ''://'' @ Ip resource
                | Some host \<Rightarrow> protocol @ ''://'' @ host)
         in case url_JoinPath lib baseUrl relativePath of
              Inl err \<Rightarrow> Err (ErrWrap ''failed constructing service endpoints, '' err)
            | Inr endpointUrl \<Rightarrow>
                ingressEndpointsLoop lib protocol relativePath resources (Suc index) rules
                  (endpoints @ [endpointUrl @ '', (Ingress, Type: LoadBalancer)'']))
      else Panic)"

definition getIngressEndpoints ::
  "stdlib \<Rightarrow> 'tls KubectlCli \<Rightarrow> ServiceConfig \<Rightarrow> string \<Rightarrow> string list result" where
  "getIngressEndpoints lib kubectl serviceConfig resourceFilter =
     (case waitForIngress kubectl resourceFilter of
        Inl err \<Rightarrow> Err err
      | Inr ingress \<Rightarrow>
          (let protocol = (if length (Tls (Spec ingress)) = 0 then ''http'' else ''https'')
           in ingressEndpointsLoop lib protocol
                (AksIngressOptions.RelativePath (Ingress (K8s serviceConfig)))
                (LoadBalancer.Ingress (IngressStatus.LoadBalancer (Status ingress)))
                0 (Rules (Spec ingress)) []))"

text \<open>
  \<open>Endpoints\<close>: the service endpoints, then the ingress endpoints. A branch that fails with
  \<open>ErrResourceNotFound\<close> left its slice nil, which appends as the empty list.
\<close>

definition Endpoints :: "stdlib \<Rightarrow> 'tls KubectlCli \<Rightarrow> ServiceConfig \<Rightarrow> string list result" where
  "Endpoints lib kubectl serviceConfig =
     (let serviceName =
            (if AksServiceOptions.Name (Service (K8s serviceConfig)) = ''''
             then ServiceConfig.Name serviceConfig
             else AksServiceOptions.Name (Service (K8s serviceConfig)));
          ingressName =
            (if AksServiceOptions.Name (Service (K8s serviceConfig)) = ''''
             then ServiceConfig.Name serviceConfig
             else AksServiceOptions.Name (Service (K8s serviceConfig)))
      in case getServiceEndpoints kubectl serviceConfig serviceName of
           Panic \<Rightarrow> Panic
         | Err err \<Rightarrow>
             if \<not> errors_Is err ErrResourceNotFound
             then Err (ErrWrap ''failed retrieving service endpoints, '' err)
             else (case getIngressEndpoints lib kubectl serviceConfig ingressName of
                     Panic \<Rightarrow> Panic
                   | Err err \<Rightarrow>
                       if \<not> errors_Is err ErrResourceNotFound
                       then Err (ErrWrap ''failed retrieving ingress endpoints, '' err)
                       else Ok []
                   | Ok ingressEndpoints \<Rightarrow> Ok ingressEndpoints)
         | Ok serviceEndpoints \<Rightarrow>
             (case getIngressEndpoints lib kubectl serviceConfig ingressName of
                Panic \<Rightarrow> Panic
              | Err err \<Rightarrow>
                  if \<not> errors_Is err ErrResourceNotFound
                  then Err (ErrWrap ''failed retrieving ingress endpoints, '' err)
                  else Ok serviceEndpoints
              | Ok ingressEndpoints \<Rightarrow> Ok (serviceEndpoints @ ingressEndpoints)))"

subsection \<open>The environment, the target resource and the collaborators\<close>

text \<open>
  Modelled from the spec: \<open>environment.Environment\<close> is declared in package \<open>environment\<close>,
  outside the file. Section 6 of the specification gives it as a store of named values with
  \<open>setServiceProperty(serviceName, key, value)\<close>; \<open>Getenv\<close> reads a value, the empty string
  when it is unset, and \<open>LookupEnv\<close> reads it together with whether it is set.
\<close>

record Environment =
  dotenv :: "string \<rightharpoonup> string"
  serviceProperties :: "string \<times> string \<rightharpoonup> string"

definition Getenv :: "Environment \<Rightarrow> string \<Rightarrow> string" where
  "Getenv e key = (case dotenv e key of None \<Rightarrow> '''' | Some v \<Rightarrow> v)"

definition LookupEnv :: "Environment \<Rightarrow> string \<Rightarrow> string option" where
  "LookupEnv e key = dotenv e key"

definition SetServiceProperty :: "Environment \<Rightarrow> string \<Rightarrow> string \<Rightarrow> string \<Rightarrow> Environment" where
  "SetServiceProperty e serviceName propertyName v =
     e\<lparr>serviceProperties := (serviceProperties e)((serviceName, propertyName) \<mapsto> v)\<rparr>"

text \<open>
  Modelled from the spec: the names of the environment variables are constants of packages
  \<open>kubectl\<close> and \<open>environment\<close>, outside the file. Section 6 of the specification has an
  override variable that names an explicit kubeconfig path and a provisioning-output
  variable that supplies the cluster name; \<open>GetSubscriptionId\<close> reads the subscription id.
  Only the examples depend on what the three names are.
\<close>

definition KubeConfigEnvVarName :: string where
  "KubeConfigEnvVarName = ''KUBECONFIG''"

definition AksClusterEnvVarName :: string where
  "AksClusterEnvVarName = ''AZURE_AKS_CLUSTER_NAME''"

definition SubscriptionIdEnvVarName :: string where
  "SubscriptionIdEnvVarName = ''AZURE_SUBSCRIPTION_ID''"

definition GetSubscriptionId :: "Environment \<Rightarrow> string" where
  "GetSubscriptionId e = Getenv e SubscriptionIdEnvVarName"

record TargetResource =
  SubscriptionId :: string
  ResourceGroupName :: string
  ResourceName :: string

definition defaultDeploymentPath :: string where
  "defaultDeploymentPath = ''manifests''"

text \<open>The kind of the service target, a constant of package \<open>project\<close>.\<close>

definition AksTarget :: string where
  "AksTarget = ''aks''"

text \<open>
  Modelled from the spec: \<open>azure.KubernetesServiceRID\<close> is declared in package \<open>azure\<close>,
  outside the file. Section 6 of the specification gives the format of the identifier.
\<close>

definition KubernetesServiceRID :: "string \<Rightarrow> string \<Rightarrow> string \<Rightarrow> string" where
  "KubernetesServiceRID subscriptionId resourceGroupName clusterName =
     ''/subscriptions/'' @ subscriptionId @ ''/resourceGroups/'' @ resourceGroupName @
     ''/providers/Microsoft.ContainerService/managedClusters/'' @ clusterName"

text \<open>
  The fields of \<open>aksTarget\<close> that are collaborators, each as its observable behaviour:
  \<open>envManager.Save\<close>, \<open>managedClustersService.GetUserCredentials\<close> (the kubeconfig blobs of
  the credentials), \<open>resourceManager.GetTargetResource\<close>, the kubectl wrapper, and the
  progress messages of \<open>containerHelper.Deploy\<close>. The field \<open>env\<close> is mutable and lives in
  the state.
\<close>

record 'tls aksTarget =
  envManager :: "Environment \<Rightarrow> error option"
  managedClustersService :: "string \<Rightarrow> string \<Rightarrow> string \<Rightarrow> error + string list"
  resourceManager :: "string \<Rightarrow> ServiceConfig \<Rightarrow> error + TargetResource"
  kubectl :: "'tls KubectlCli"
  containerHelper :: "string list"

text \<open>The invocations of collaborators that the file makes, other than the polls of a wait.\<close>

datatype call =
    CallSetEnv "string \<Rightarrow> string option"
  | CallSetKubeConfig string
  | CallApply string
  | CallRolloutStatus string
  | CallGetTargetResource string
  | CallGetUserCredentials string string string
  | CallNewKubeConfigManager
  | CallParseKubeConfig string
  | CallAddOrUpdateContext string KubeConfig
  | CallConfigUseContext string
  | CallCreateNamespace string
  | CallApplyWithStdIn string
  | CallMessage string

text \<open>
  What a run changes: the environment, the environments handed to \<open>envManager.Save\<close>, the
  progress messages of the task, and the collaborator invocations, each in order.
\<close>

record state =
  env :: Environment
  saved :: "Environment list"
  progress :: "string list"
  calls :: "call list"

definition SetProgress :: "string \<Rightarrow> state \<Rightarrow> state" where
  "SetProgress message s = s\<lparr>progress := progress s @ [message]\<rparr>"

definition invoke :: "call \<Rightarrow> state \<Rightarrow> state" where
  "invoke c s = s\<lparr>calls := calls s @ [c]\<rparr>"

subsection \<open>Waiting for the deployment\<close>

definition waitForDeployment ::
  "'tls aksTarget \<Rightarrow> string \<Rightarrow> state \<Rightarrow> (error + Deployment) \<times> state" where
  "waitForDeployment t deploymentNameFilter s =
     (case WaitForResource (deployments (kubectl t))
             (\<lambda>deployment.
                strings_Contains (ResourceMetadata.Name (Metadata deployment)) deploymentNameFilter)
             (\<lambda>deployment. AvailableReplicas (Status deployment) = Replicas (Spec deployment)) of
        Inl err \<Rightarrow> (Inl err, s)
      | Inr deployment \<Rightarrow>
          (let s1 = invoke (CallRolloutStatus (ResourceMetadata.Name (Metadata deployment))) s
           in case RolloutStatus (kubectl t) (ResourceMetadata.Name (Metadata deployment)) of
                Some err \<Rightarrow> (Inl err, s1)
              | None \<Rightarrow> (Inr deployment, s1)))"

subsection \<open>Deploy\<close>

definition validateTargetResource :: "TargetResource \<Rightarrow> error option" where
  "validateTargetResource targetResource =
     (if ResourceGroupName targetResource = ''''
      then Some (ErrNew (''missing resource group name: '' @ ResourceGroupName targetResource))
      else None)"

text \<open>
  The part of \<open>Deploy\<close> from "Fetching endpoints for AKS service" to the result: resolve the
  endpoints; if there is one, store the text of the last one before its first comma as the
  property \<open>ENDPOINT_URL\<close> of the service and save the environment; assemble the result.
\<close>

definition Deploy_endpoints ::
  "stdlib \<Rightarrow> 'tls aksTarget \<Rightarrow> ServiceConfig \<Rightarrow> ServicePackageResult \<Rightarrow> TargetResource \<Rightarrow>
   Deployment option \<Rightarrow> state \<Rightarrow> ServiceDeployResult result \<times> state" where
  "Deploy_endpoints lib t serviceConfig packageOutput targetResource deployment s =
     (let s1 = SetProgress ''Fetching endpoints for AKS service'' s
      in case Endpoints lib (kubectl t) serviceConfig of
           Panic \<Rightarrow> (Panic, s1)
         | Err err \<Rightarrow> (Err err, s1)
         | Ok endpoints \<Rightarrow>
             (let deployResult =
                    \<lparr>Package = packageOutput,
                     TargetResourceId =
                       KubernetesServiceRID (SubscriptionId targetResource)
                         (ResourceGroupName targetResource) (ResourceName targetResource),
                     Kind = AksTarget,
                     Details = deployment,
                     ServiceDeployResult.Endpoints = endpoints\<rparr>
              in if length endpoints > 0 then
                   (let endpointParts =
                          strings_Split (endpoints ! (length endpoints - 1)) (CHR '','');
                        s2 = s1\<lparr>env := SetServiceProperty (env s1) (ServiceConfig.Name serviceConfig)
                                         ''ENDPOINT_URL'' (endpointParts ! 0)\<rparr>;
                        s3 = s2\<lparr>saved := saved s2 @ [env s2]\<rparr>
                    in case envManager t (env s2) of
                         Some err \<Rightarrow>
                           (Err (ErrWrap ''failed updating environment with endpoint url, '' err), s3)
                       | None \<Rightarrow> (Ok deployResult, s3))
                 else (Ok deployResult, s1)))"

text \<open>
  \<open>Deploy\<close>, the body of its task: \<open>packageOutput\<close> is a pointer (\<open>None\<close> is nil); the progress
  of the container helper is forwarded and its result is not read.
\<close>

definition Deploy ::
  "stdlib \<Rightarrow> 'tls aksTarget \<Rightarrow> ServiceConfig \<Rightarrow> ServicePackageResult option \<Rightarrow> TargetResource \<Rightarrow>
   state \<Rightarrow> ServiceDeployResult result \<times> state" where
  "Deploy lib t serviceConfig packageOutput targetResource s =
     (case validateTargetResource targetResource of
        Some err \<Rightarrow> (Err (ErrWrap ''validating target resource: '' err), s)
      | None \<Rightarrow>
          (case packageOutput of
             None \<Rightarrow> (Err (ErrNew ''missing package output''), s)
           | Some package \<Rightarrow>
               (let s1 = s\<lparr>progress := progress s @ containerHelper t\<rparr>;
                    s2 = invoke (CallSetEnv (dotenv (env s1))) s1;
                    s3 = SetProgress ''Applying k8s manifests'' s2;
                    deploymentPath =
                      (if DeploymentPath (K8s serviceConfig) = '''' then defaultDeploymentPath
                       else DeploymentPath (K8s serviceConfig));
                    manifests =
                      filepath_Join lib (ServiceConfig.RelativePath serviceConfig) deploymentPath;
                    s4 = invoke (CallApply manifests) s3
                in case Apply (kubectl t) manifests of
                     Some err \<Rightarrow> (Err (ErrWrap ''failed applying kube manifests: '' err), s4)
                   | None \<Rightarrow>
                       (let deploymentName =
                              (if AksDeploymentOptions.Name (Deployment (K8s serviceConfig)) = ''''
                               then ServiceConfig.Name serviceConfig
                               else AksDeploymentOptions.Name (Deployment (K8s serviceConfig)));
                            s5 = SetProgress ''Verifying deployment'' s4
                        in case waitForDeployment t deploymentName s5 of
                             (Inl err, s6) \<Rightarrow>
                               if \<not> errors_Is err ErrResourceNotFound then (Err err, s6)
                               else Deploy_endpoints lib t serviceConfig package targetResource
                                      None s6
                           | (Inr deployment, s6) \<Rightarrow>
                               Deploy_endpoints lib t serviceConfig package targetResource
                                 (Some deployment) s6))))"

subsection \<open>The cluster-context bootstrap\<close>

definition configureK8sContext ::
  "'tls aksTarget \<Rightarrow> string \<Rightarrow> string \<Rightarrow> string \<Rightarrow> state \<Rightarrow> string result \<times> state" where
  "configureK8sContext t clusterName namespace credentialValue s =
     (let s1 = invoke CallNewKubeConfigManager s
      in case NewKubeConfigManager (kubectl t) of
           Some err \<Rightarrow> (Err err, s1)
         | None \<Rightarrow>
             (let s2 = invoke (CallParseKubeConfig credentialValue) s1
              in case ParseKubeConfig (kubectl t) credentialValue of
                   Inl err \<Rightarrow>
                     (Err (ErrWrap
                             ''failed parsing kube config. Ensure your configuration is valid yaml. ''
                             err), s2)
                 | Inr parsed \<Rightarrow>
                     (case Contexts parsed of
                        [] \<Rightarrow> (Panic, s2)
                      | context0 # contexts \<Rightarrow>
                          (let kubeConfig =
                                 parsed\<lparr>Contexts :=
                                   context0\<lparr>Context := (Context context0)\<lparr>KubeContextDetails.Namespace := namespace\<rparr>\<rparr>
                                   # contexts\<rparr>;
                               s3 = invoke (CallAddOrUpdateContext clusterName kubeConfig) s2
                           in case AddOrUpdateContext (kubectl t) clusterName kubeConfig of
                                Inl err \<Rightarrow>
                                  (Err (ErrWrap ''failed adding/updating kube context, '' err), s3)
                              | Inr kubeConfigPath \<Rightarrow>
                                  (let s4 = invoke (CallConfigUseContext clusterName) s3
                                   in case ConfigUseContext (kubectl t) clusterName of
                                        Some err \<Rightarrow>
                                          (Err (ErrWrap
                                                  (''failed setting kube context '' @ [CHR 0x27] @
                                                   clusterName @ [CHR 0x27] @
                                                   ''. Ensure the specified context exists. '')
                                                  err), s4)
                                      | None \<Rightarrow> (Ok kubeConfigPath, s4))))))"

text \<open>
  \<open>ensureClusterContext\<close>. The error of the empty credential list is made with \<open>%w\<close> of a nil
  error, which prints as \<open>%!w(<nil>)\<close> and wraps nothing. The line written to the log before
  the credentials are fetched is left out.
\<close>

definition ensureClusterContext ::
  "'tls aksTarget \<Rightarrow> ServiceConfig \<Rightarrow> TargetResource \<Rightarrow> string \<Rightarrow> state \<Rightarrow>
   string result \<times> state" where
  "ensureClusterContext t serviceConfig targetResource defaultNamespace s =
     (let kubeConfigPath = Getenv (env s) KubeConfigEnvVarName
      in if kubeConfigPath \<noteq> '''' then (Ok kubeConfigPath, s)
         else
           (case LookupEnv (env s) AksClusterEnvVarName of
              None \<Rightarrow>
                (Err (ErrNew (''could not determine AKS cluster, ensure '' @ AksClusterEnvVarName @
                              '' is set as an output of your infrastructure'')), s)
            | Some clusterName \<Rightarrow>
                (let s1 = invoke (CallGetUserCredentials (SubscriptionId targetResource)
                                    (ResourceGroupName targetResource) clusterName) s
                 in case managedClustersService t (SubscriptionId targetResource)
                           (ResourceGroupName targetResource) clusterName of
                      Inl err \<Rightarrow>
                        (Err (ErrWrap
                                (''failed retrieving cluster admin credentials. '' @
                                 ''Ensure your cluster has been configured to support admin credentials, '')
                                err), s1)
                    | Inr kubeconfigs \<Rightarrow>
                        if length kubeconfigs = 0 then
                          (Err (ErrNew
                                  (''cluster credentials is empty. '' @
                                   ''Ensure your cluster has been configured to support admin credentials. '' @
                                   '', %!w(<nil>)'')), s1)
                        else configureK8sContext t clusterName defaultNamespace (kubeconfigs ! 0) s1)))"

definition ensureNamespace :: "'tls aksTarget \<Rightarrow> string \<Rightarrow> state \<Rightarrow> error option \<times> state" where
  "ensureNamespace t namespace s =
     (let s1 = invoke (CallCreateNamespace namespace) s
      in case CreateNamespace (kubectl t) namespace of
           Inl err \<Rightarrow> (Some (ErrWrap ''failed creating kube namespace: '' err), s1)
         | Inr stdout \<Rightarrow>
             (let s2 = invoke (CallApplyWithStdIn stdout) s1
              in case ApplyWithStdIn (kubectl t) stdout of
                   Some err \<Rightarrow> (Some (ErrWrap ''failed applying kube namespace: '' err), s2)
                 | None \<Rightarrow> (None, s2)))"

definition getK8sNamespace :: "ServiceConfig \<Rightarrow> string" where
  "getK8sNamespace serviceConfig =
     (if AksOptions.Namespace (K8s serviceConfig) = ''''
      then ProjectConfig.Name (Project serviceConfig)
      else AksOptions.Namespace (K8s serviceConfig))"

text \<open>\<open>setK8sContext\<close>: \<open>Ok ()\<close> is the nil error.\<close>

definition setK8sContext ::
  "'tls aksTarget \<Rightarrow> ServiceConfig \<Rightarrow> string \<Rightarrow> state \<Rightarrow> unit result \<times> state" where
  "setK8sContext t serviceConfig eventName s =
     (let s1 = invoke (CallSetEnv (dotenv (env s))) s;
          kubeConfigPath = Getenv (env s1) KubeConfigEnvVarName;
          hasCustomKubeConfig = (kubeConfigPath \<noteq> '''');
          s2 = (if kubeConfigPath \<noteq> '''' then invoke (CallSetKubeConfig kubeConfigPath) s1 else s1);
          s3 = invoke (CallGetTargetResource (GetSubscriptionId (env s2))) s2
      in case resourceManager t (GetSubscriptionId (env s2)) serviceConfig of
           Inl err \<Rightarrow> (Err err, s3)
         | Inr targetResource \<Rightarrow>
             (let defaultNamespace = getK8sNamespace serviceConfig
              in case ensureClusterContext t serviceConfig targetResource defaultNamespace s3 of
                   (Panic, s4) \<Rightarrow> (Panic, s4)
                 | (Err err, s4) \<Rightarrow> (Err err, s4)
                 | (Ok path, s4) \<Rightarrow>
                     (case ensureNamespace t defaultNamespace s4 of
                        (Some err, s5) \<Rightarrow> (Err err, s5)
                      | (None, s5) \<Rightarrow>
                          (Ok (),
                           if hasCustomKubeConfig \<and> eventName = ''predeploy''
                           then invoke (CallMessage (''Using KUBECONFIG @ '' @ kubeConfigPath @
                                                     [CHR 0x0A])) s5
                           else s5))))"

subsection \<open>Example inputs and shorthands\<close>

text \<open>
  A stand-in for \<open>url.JoinPath\<close> on a base made of a scheme and a host, with no path of its
  own, and an element of plain path characters. The element is cleaned the way \<open>path.Clean\<close>
  cleans a rooted path (empty segments and \<open>.\<close> are dropped, \<open>..\<close> removes the segment
  before it), a trailing slash of the element is kept, and the path follows the host after
  one slash. It fills the parameter in the examples.
\<close>

fun cleanSegments :: "string list \<Rightarrow> string list \<Rightarrow> string list" where
  "cleanSegments [] kept = kept"
| "cleanSegments (segment # segments) kept =
     (if segment = '''' \<or> segment = ''.'' then cleanSegments segments kept
      else if segment = ''..'' then cleanSegments segments (butlast kept)
      else cleanSegments segments (kept @ [segment]))"

fun joinSegments :: "string list \<Rightarrow> string" where
  "joinSegments [] = ''''"
| "joinSegments [segment] = segment"
| "joinSegments (segment # segments) = segment @ ''/'' @ joinSegments segments"

definition plainJoinPath :: "string \<Rightarrow> string \<Rightarrow> error + string" where
  "plainJoinPath base elem =
     (let p = joinSegments (cleanSegments (strings_Split elem (CHR ''/'')) []);
          p' = (if elem \<noteq> '''' \<and> last elem = CHR ''/'' then p @ ''/'' else p)
      in Inr (if p' = '''' then base else if p = '''' then base @ p' else base @ ''/'' @ p'))"

definition exampleStdlib :: stdlib where
  "exampleStdlib = \<lparr>url_JoinPath = plainJoinPath, filepath_Join = (\<lambda>a b. a @ ''/'' @ b)\<rparr>"

text \<open>A cluster with no resources, on which every command succeeds.\<close>

definition quietKubectl :: "unit KubectlCli" where
  "quietKubectl =
     \<lparr>deployments = [], services = [], ingresses = [],
      RolloutStatus = (\<lambda>name. None),
      Apply = (\<lambda>path. None),
      CreateNamespace = (\<lambda>namespace. Inr (''kind: Namespace, name: '' @ namespace)),
      ApplyWithStdIn = (\<lambda>input. None),
      ConfigUseContext = (\<lambda>name. None),
      NewKubeConfigManager = None,
      ParseKubeConfig =
        (\<lambda>content. Inr \<lparr>Contexts = [\<lparr>Context = \<lparr>KubeContextDetails.Namespace = ''default''\<rparr>\<rparr>]\<rparr>),
      AddOrUpdateContext = (\<lambda>name config. Inr ''/home/dev/.kube/config'')\<rparr>"

text \<open>A service \<open>web\<close> of project \<open>todo\<close> with the relative path \<open>/app\<close> for its ingress.\<close>

definition webConfig :: ServiceConfig where
  "webConfig =
     \<lparr>ServiceConfig.Name = ''web'', ServiceConfig.RelativePath = ''src/web'',
      K8s = \<lparr>AksOptions.Namespace = '''', DeploymentPath = '''',
             Ingress = \<lparr>AksIngressOptions.Name = '''', AksIngressOptions.RelativePath = ''/app''\<rparr>,
             Deployment = \<lparr>AksDeploymentOptions.Name = ''''\<rparr>,
             Service = \<lparr>AksServiceOptions.Name = ''''\<rparr>\<rparr>,
      Project = \<lparr>ProjectConfig.Name = ''todo''\<rparr>\<rparr>"

text \<open>
  A load-balancer service whose first entry has no IP yet (it is ready by its second entry),
  a ClusterIP service with one IP and one port, and one with two IPs and one port.
\<close>

definition lbService :: Service where
  "lbService =
     \<lparr>Metadata = \<lparr>ResourceMetadata.Name = ''web''\<rparr>,
      Spec = \<lparr>Type = ''LoadBalancer'', ClusterIps = [], Ports = []\<rparr>,
      Status = \<lparr>ServiceStatus.LoadBalancer = \<lparr>LoadBalancer.Ingress = [\<lparr>Ip = ''''\<rparr>, \<lparr>Ip = ''1.2.3.4''\<rparr>]\<rparr>\<rparr>\<rparr>"

definition clusterIpService :: Service where
  "clusterIpService =
     \<lparr>Metadata = \<lparr>ResourceMetadata.Name = ''web''\<rparr>,
      Spec = \<lparr>Type = ''ClusterIP'', ClusterIps = [''10.0.0.5''], Ports = [\<lparr>Port = 8080\<rparr>]\<rparr>,
      Status = \<lparr>ServiceStatus.LoadBalancer = \<lparr>LoadBalancer.Ingress = []\<rparr>\<rparr>\<rparr>"

definition dualStackService :: Service where
  "dualStackService =
     \<lparr>Metadata = \<lparr>ResourceMetadata.Name = ''web''\<rparr>,
      Spec = \<lparr>Type = ''ClusterIP'', ClusterIps = [''10.0.0.5'', ''fd00::5''],
              Ports = [\<lparr>Port = 8080\<rparr>]\<rparr>,
      Status = \<lparr>ServiceStatus.LoadBalancer = \<lparr>LoadBalancer.Ingress = []\<rparr>\<rparr>\<rparr>"

text \<open>The load-balancer entries of a service that have an IP.\<close>

definition entriesWithIp :: "LoadBalancerIngress list \<Rightarrow> LoadBalancerIngress list" where
  "entriesWithIp entries = filter (\<lambda>config. Ip config \<noteq> '''') entries"

text \<open>
  An ingress with one rule naming the host \<open>example.com\<close> and no TLS, an ingress with TLS
  whose rule names no host, and an ingress that has a load-balancer entry and no rule (as
  one that only routes to a default backend).
\<close>

definition hostIngress :: "unit Ingress" where
  "hostIngress =
     \<lparr>Metadata = \<lparr>ResourceMetadata.Name = ''web''\<rparr>,
      Spec = \<lparr>Tls = [], Rules = [\<lparr>Host = Some ''example.com''\<rparr>]\<rparr>,
      Status = \<lparr>IngressStatus.LoadBalancer = \<lparr>LoadBalancer.Ingress = [\<lparr>Ip = ''1.2.3.4''\<rparr>]\<rparr>\<rparr>\<rparr>"

definition tlsIngress :: "unit Ingress" where
  "tlsIngress =
     \<lparr>Metadata = \<lparr>ResourceMetadata.Name = ''web''\<rparr>,
      Spec = \<lparr>Tls = [()], Rules = [\<lparr>Host = None\<rparr>]\<rparr>,
      Status = \<lparr>IngressStatus.LoadBalancer = \<lparr>LoadBalancer.Ingress = [\<lparr>Ip = ''1.2.3.4''\<rparr>]\<rparr>\<rparr>\<rparr>"

definition defaultBackendIngress :: "unit Ingress" where
  "defaultBackendIngress =
     \<lparr>Metadata = \<lparr>ResourceMetadata.Name = ''web''\<rparr>,
      Spec = \<lparr>Tls = [], Rules = []\<rparr>,
      Status = \<lparr>IngressStatus.LoadBalancer = \<lparr>LoadBalancer.Ingress = [\<lparr>Ip = ''1.2.3.4''\<rparr>]\<rparr>\<rparr>\<rparr>"

text \<open>
  An ingress named \<open>gateway\<close>, and the configuration of \<open>web\<close> with \<open>gateway\<close> as the name of
  its ingress.
\<close>

definition gatewayIngress :: "unit Ingress" where
  "gatewayIngress =
     \<lparr>Metadata = \<lparr>ResourceMetadata.Name = ''gateway''\<rparr>,
      Spec = \<lparr>Tls = [], Rules = [\<lparr>Host = Some ''gateway.example.com''\<rparr>]\<rparr>,
      Status = \<lparr>IngressStatus.LoadBalancer = \<lparr>LoadBalancer.Ingress = [\<lparr>Ip = ''5.6.7.8''\<rparr>]\<rparr>\<rparr>\<rparr>"

definition gatewayConfig :: ServiceConfig where
  "gatewayConfig =
     webConfig\<lparr>K8s := (K8s webConfig)\<lparr>Ingress :=
       (Ingress (K8s webConfig))\<lparr>AksIngressOptions.Name := ''gateway''\<rparr>\<rparr>\<rparr>"

text \<open>A deployment with as many replicas available as desired, and one with one more.\<close>

definition settledDeployment :: Deployment where
  "settledDeployment =
     \<lparr>Metadata = \<lparr>ResourceMetadata.Name = ''web''\<rparr>,
      Spec = \<lparr>Replicas = 2\<rparr>, Status = \<lparr>AvailableReplicas = 2\<rparr>\<rparr>"

definition surplusDeployment :: Deployment where
  "surplusDeployment =
     \<lparr>Metadata = \<lparr>ResourceMetadata.Name = ''web''\<rparr>,
      Spec = \<lparr>Replicas = 2\<rparr>, Status = \<lparr>AvailableReplicas = 3\<rparr>\<rparr>"

text \<open>
  A target whose collaborators all succeed, on the cluster with no resources; a target
  resource and a package; a state with nothing in it, and one whose environment sets the
  kubeconfig override.
\<close>

definition aksResource :: TargetResource where
  "aksResource =
     \<lparr>SubscriptionId = ''sub-1'', ResourceGroupName = ''rg-todo'', ResourceName = ''aks-todo''\<rparr>"

definition quietTarget :: "unit aksTarget" where
  "quietTarget =
     \<lparr>envManager = (\<lambda>e. None),
      managedClustersService = (\<lambda>subscriptionId resourceGroup clusterName. Inr [''apiVersion: v1'']),
      resourceManager = (\<lambda>subscriptionId serviceConfig. Inr aksResource),
      kubectl = quietKubectl,
      containerHelper = [''Pushing container image'']\<rparr>"

definition webPackage :: ServicePackageResult where
  "webPackage = \<lparr>PackagePath = ''todo/web:latest''\<rparr>"

definition freshState :: state where
  "freshState =
     \<lparr>env = \<lparr>dotenv = Map.empty, serviceProperties = Map.empty\<rparr>,
      saved = [], progress = [], calls = []\<rparr>"

definition overrideState :: state where
  "overrideState =
     \<lparr>env = \<lparr>dotenv = [''KUBECONFIG'' \<mapsto> ''/home/dev/kubeconfig''],
             serviceProperties = Map.empty\<rparr>,
      saved = [], progress = [], calls = []\<rparr>"

text \<open>
  A target on a cluster with the ClusterIP service and the ingress of \<open>example.com\<close>, and a
  target whose resource manager cannot resolve the target resource.
\<close>

definition servingTarget :: "unit aksTarget" where
  "servingTarget =
     quietTarget\<lparr>kubectl :=
       quietKubectl\<lparr>services := [Inr [clusterIpService]], ingresses := [Inr [hostIngress]]\<rparr>\<rparr>"

definition unresolvedResource :: "string \<Rightarrow> ServiceConfig \<Rightarrow> error + TargetResource" where
  "unresolvedResource subscriptionId serviceConfig = Inl (ErrNew ''resource group not found'')"

definition unresolvedTarget :: "unit aksTarget" where
  "unresolvedTarget = quietTarget\<lparr>resourceManager := unresolvedResource\<rparr>"

text \<open>The base URL of one round of the ingress loop, as a shorthand for the statements.\<close>

abbreviation ingressBaseUrl :: "string \<Rightarrow> LoadBalancerIngress \<Rightarrow> IngressRule \<Rightarrow> string" where
  "ingressBaseUrl protocol resource rule \<equiv>
     (case Host rule of
        None \<Rightarrow> protocol @ ''://'' @ Ip resource
      | Some host \<Rightarrow> protocol @ ''://'' @ host)"

section \<open>Properties\<close>

subsection \<open>The poller and the readiness predicates\<close>

lemma find_Some_member: "find P xs = Some x \<Longrightarrow> P x \<and> x \<in> set xs"
  by (induction xs) (auto split: if_splits)

lemma pollCycles_Inr:
  "pollCycles cycles match ready matched = Inr resource \<Longrightarrow> match resource \<and> ready resource"
proof (induction cycles match ready matched rule: pollCycles.induct)
  case (3 resources cycles match ready matched)
  show ?case
  proof (cases "filter match resources")
    case Nil
    with 3 show ?thesis by simp
  next
    case (Cons m ms)
    show ?thesis
    proof (cases "find ready (m # ms)")
      case None
      with 3 Cons show ?thesis by simp
    next
      case (Some found)
      with 3 Cons have eq: "found = resource" by simp
      from Some have found: "ready found \<and> found \<in> set (m # ms)"
        by (rule find_Some_member)
      then have "found \<in> set (filter match resources)"
        using Cons by simp
      then have "match found" by simp
      with found eq show ?thesis by simp
    qed
  qed
qed simp_all

lemma WaitForResource_Inr:
  "WaitForResource cycles match ready = Inr resource \<Longrightarrow> match resource \<and> ready resource"
  unfolding WaitForResource_def by (rule pollCycles_Inr)

lemma WaitForResource_single:
  "match resource \<Longrightarrow>
   WaitForResource [Inr [resource]] match ready =
     (if ready resource then Inr resource else Inl (ErrNew ''timed out waiting for resource''))"
  by (simp add: WaitForResource_def)

lemma firstIpAddress_nonempty:
  "firstIpAddress configs \<noteq> '''' \<longleftrightarrow> (\<exists>config \<in> set configs. Ip config \<noteq> '''')"
  by (induction configs) auto

lemma anyIpAddress_iff:
  "anyIpAddress configs \<longleftrightarrow> (\<exists>config \<in> set configs. Ip config \<noteq> '''')"
  by (induction configs) auto

lemma waitForService_LoadBalancer_ready:
  assumes "waitForService cli serviceNameFilter = Inr service"
    and "Type (Spec service) = ServiceTypeLoadBalancer"
  shows "\<exists>config \<in> set (LoadBalancer.Ingress (ServiceStatus.LoadBalancer (Status service))).
           Ip config \<noteq> ''''"
proof -
  from assms(1) have
    "if Type (Spec service) \<noteq> ServiceTypeLoadBalancer then True
     else firstIpAddress (LoadBalancer.Ingress (ServiceStatus.LoadBalancer (Status service))) \<noteq> ''''"
    unfolding waitForService_def by (auto dest: WaitForResource_Inr)
  with assms(2) show ?thesis by (simp add: firstIpAddress_nonempty)
qed

lemma length_filter_eq_iff: "length (filter P xs) = length xs \<longleftrightarrow> (\<forall>x \<in> set xs. P x)"
proof (induction xs)
  case Nil
  show ?case by simp
next
  case (Cons x xs)
  have "length (filter P xs) \<le> length xs" by (rule length_filter_le)
  then have "length (filter P xs) \<noteq> Suc (length xs)" by arith
  with Cons show ?case by simp
qed

lemma service_types_distinct: "ServiceTypeClusterIp \<noteq> ServiceTypeLoadBalancer"
  by (simp add: ServiceTypeClusterIp_def ServiceTypeLoadBalancer_def)

lemma strings_Contains_self: "strings_Contains s s"
  by (cases s) simp_all

subsection \<open>Service endpoints\<close>

text \<open>
  C1, as the code has it. For a service of type LoadBalancer that the wait returned, the
  endpoints are one per entry of \<open>Status.LoadBalancer.Ingress\<close>, whether its IP is empty or
  not: the i-th endpoint is \<open>http://<ip>, (Service, Type: LoadBalancer)\<close> for the IP of the
  i-th entry. At least one entry has a non-empty IP, and the number of endpoints equals the
  number of entries with a non-empty IP exactly when no entry has an empty IP.
\<close>

theorem getServiceEndpoints_LoadBalancer:
  assumes "waitForService cli serviceNameFilter = Inr service"
    and "Type (Spec service) = ServiceTypeLoadBalancer"
  shows "getServiceEndpoints cli serviceConfig serviceNameFilter =
           Ok (map (\<lambda>entry. ''http://'' @ Ip entry @ '', (Service, Type: LoadBalancer)'')
                 (LoadBalancer.Ingress (ServiceStatus.LoadBalancer (Status service)))) \<and>
         entriesWithIp (LoadBalancer.Ingress (ServiceStatus.LoadBalancer (Status service))) \<noteq> [] \<and>
         (length (LoadBalancer.Ingress (ServiceStatus.LoadBalancer (Status service))) =
            length (entriesWithIp
                      (LoadBalancer.Ingress (ServiceStatus.LoadBalancer (Status service)))) \<longleftrightarrow>
          (\<forall>config \<in> set (LoadBalancer.Ingress (ServiceStatus.LoadBalancer (Status service))).
             Ip config \<noteq> ''''))"
proof -
  let ?entries = "LoadBalancer.Ingress (ServiceStatus.LoadBalancer (Status service))"
  have run: "getServiceEndpoints cli serviceConfig serviceNameFilter =
               Ok (map (\<lambda>entry. ''http://'' @ Ip entry @ '', (Service, Type: LoadBalancer)'')
                     ?entries)"
    using assms by (simp add: getServiceEndpoints_def)
  have ready: "entriesWithIp ?entries \<noteq> []"
    using waitForService_LoadBalancer_ready [OF assms]
    by (simp add: entriesWithIp_def filter_empty_conv)
  have count: "length ?entries = length (entriesWithIp ?entries) \<longleftrightarrow>
               (\<forall>config \<in> set ?entries. Ip config \<noteq> '''')"
    unfolding entriesWithIp_def
    using length_filter_eq_iff [of "\<lambda>config. Ip config \<noteq> ''''" ?entries] by auto
  from run ready count show ?thesis by blast
qed

theorem getServiceEndpoints_LoadBalancer_witness:
  "waitForService (quietKubectl\<lparr>services := [Inr [lbService]]\<rparr>) ''web'' = Inr lbService \<and>
   Type (Spec lbService) = ServiceTypeLoadBalancer \<and>
   getServiceEndpoints (quietKubectl\<lparr>services := [Inr [lbService]]\<rparr>) webConfig ''web'' =
     Ok [''http://, (Service, Type: LoadBalancer)'', ''http://1.2.3.4, (Service, Type: LoadBalancer)'']"
proof -
  have wait: "waitForService (quietKubectl\<lparr>services := [Inr [lbService]]\<rparr>) ''web'' = Inr lbService"
    by (simp add: waitForService_def WaitForResource_def quietKubectl_def lbService_def
        ServiceTypeLoadBalancer_def)
  have type: "Type (Spec lbService) = ServiceTypeLoadBalancer"
    by (simp add: lbService_def ServiceTypeLoadBalancer_def)
  have entries: "LoadBalancer.Ingress (ServiceStatus.LoadBalancer (Status lbService)) =
                   [\<lparr>Ip = ''''\<rparr>, \<lparr>Ip = ''1.2.3.4''\<rparr>]"
    by (simp add: lbService_def)
  from getServiceEndpoints_LoadBalancer [OF wait type, of webConfig]
  have "getServiceEndpoints (quietKubectl\<lparr>services := [Inr [lbService]]\<rparr>) webConfig ''web'' =
          Ok [''http://, (Service, Type: LoadBalancer)'', ''http://1.2.3.4, (Service, Type: LoadBalancer)'']"
    unfolding entries by simp
  with wait type show ?thesis by blast
qed

text \<open>
  The claim as written fails on \<open>lbService\<close>: the wait returns it (its second entry has an
  IP), two endpoints are produced, and one entry has a non-empty IP.
\<close>

theorem getServiceEndpoints_LoadBalancer_counterexample:
  "waitForService (quietKubectl\<lparr>services := [Inr [lbService]]\<rparr>) ''web'' = Inr lbService \<and>
   Type (Spec lbService) = ServiceTypeLoadBalancer \<and>
   getServiceEndpoints (quietKubectl\<lparr>services := [Inr [lbService]]\<rparr>) webConfig ''web'' =
     Ok [''http://, (Service, Type: LoadBalancer)'', ''http://1.2.3.4, (Service, Type: LoadBalancer)''] \<and>
   length (entriesWithIp (LoadBalancer.Ingress (ServiceStatus.LoadBalancer (Status lbService)))) = 1"
  by (simp add: getServiceEndpoints_def waitForService_def WaitForResource_def quietKubectl_def
      lbService_def ServiceTypeLoadBalancer_def entriesWithIp_def)

lemma clusterIpEndpointsLoop_Ok:
  "index + length ips \<le> length ports \<Longrightarrow>
   clusterIpEndpointsLoop ips index ports endpoints =
     Ok (endpoints @
         map (\<lambda>(ip, port). ''http://'' @ ip @ '':'' @ Sprintf_d (Port port) @
                            '', (Service, Type: ClusterIP)'')
           (zip ips (drop index ports)))"
proof (induction ips arbitrary: index endpoints)
  case Nil
  show ?case by simp
next
  case (Cons ip ips)
  then have less: "index < length ports" and rest: "Suc index + length ips \<le> length ports"
    by simp_all
  from less have "drop index ports = ports ! index # drop (Suc index) ports"
    by (simp add: Cons_nth_drop_Suc)
  with less Cons.IH [OF rest] show ?case by simp
qed

lemma clusterIpEndpointsLoop_Panic:
  "length ports < index + length ips \<Longrightarrow> index \<le> length ports \<Longrightarrow>
   clusterIpEndpointsLoop ips index ports endpoints = Panic"
  by (induction ips arbitrary: index endpoints) auto

lemma clusterIpEndpointsLoop_Panic_iff:
  "clusterIpEndpointsLoop ips 0 ports [] = Panic \<longleftrightarrow> length ports < length ips"
proof (cases "length ports < length ips")
  case True
  then show ?thesis by (simp add: clusterIpEndpointsLoop_Panic)
next
  case False
  then have "0 + length ips \<le> length ports" by simp
  from clusterIpEndpointsLoop_Ok [OF this] False show ?thesis by simp
qed

text \<open>
  C3. For a service of type ClusterIP that the wait returned, with \<open>n\<close> cluster IPs and at
  least \<open>n\<close> ports, \<open>getServiceEndpoints\<close> returns exactly \<open>n\<close> endpoints, the i-th being
  \<open>http://<ClusterIps[i]>:<Ports[i].Port>, (Service, Type: ClusterIP)\<close>.
\<close>

theorem getServiceEndpoints_ClusterIP:
  assumes "waitForService cli serviceNameFilter = Inr service"
    and "Type (Spec service) = ServiceTypeClusterIp"
    and "length (ClusterIps (Spec service)) \<le> length (Ports (Spec service))"
  shows "getServiceEndpoints cli serviceConfig serviceNameFilter =
           Ok (map (\<lambda>i. ''http://'' @ ClusterIps (Spec service) ! i @ '':'' @
                         Sprintf_d (Port (Ports (Spec service) ! i)) @
                         '', (Service, Type: ClusterIP)'')
                 [0..<length (ClusterIps (Spec service))])"
proof -
  let ?ips = "ClusterIps (Spec service)" and ?ports = "Ports (Spec service)"
  let ?fmt = "\<lambda>(ip, port). ''http://'' @ ip @ '':'' @ Sprintf_d (Port port) @
                            '', (Service, Type: ClusterIP)''"
  from assms(3) have "0 + length ?ips \<le> length ?ports" by simp
  from clusterIpEndpointsLoop_Ok [OF this, of "[]"]
  have loop: "clusterIpEndpointsLoop ?ips 0 ?ports [] = Ok (map ?fmt (zip ?ips ?ports))"
    by simp
  have "map ?fmt (zip ?ips ?ports) =
        map (\<lambda>i. ''http://'' @ ?ips ! i @ '':'' @ Sprintf_d (Port (?ports ! i)) @
                  '', (Service, Type: ClusterIP)'') [0..<length ?ips]"
    using assms(3) by (intro nth_equalityI) simp_all
  with loop assms(1,2) show ?thesis
    by (simp add: getServiceEndpoints_def service_types_distinct)
qed

theorem getServiceEndpoints_ClusterIP_witness:
  "waitForService (quietKubectl\<lparr>services := [Inr [clusterIpService]]\<rparr>) ''web'' =
     Inr clusterIpService \<and>
   Type (Spec clusterIpService) = ServiceTypeClusterIp \<and>
   length (ClusterIps (Spec clusterIpService)) \<le> length (Ports (Spec clusterIpService)) \<and>
   getServiceEndpoints (quietKubectl\<lparr>services := [Inr [clusterIpService]]\<rparr>) webConfig ''web'' =
     Ok [''http://10.0.0.5:8080, (Service, Type: ClusterIP)'']"
proof -
  have wait: "waitForService (quietKubectl\<lparr>services := [Inr [clusterIpService]]\<rparr>) ''web'' =
                Inr clusterIpService"
    by (simp add: waitForService_def WaitForResource_def quietKubectl_def clusterIpService_def
        ServiceTypeLoadBalancer_def)
  have type: "Type (Spec clusterIpService) = ServiceTypeClusterIp"
    by (simp add: clusterIpService_def ServiceTypeClusterIp_def)
  have ips: "ClusterIps (Spec clusterIpService) = [''10.0.0.5'']"
    and ports: "Ports (Spec clusterIpService) = [\<lparr>Port = 8080\<rparr>]"
    by (simp_all add: clusterIpService_def)
  have len: "length (ClusterIps (Spec clusterIpService)) \<le> length (Ports (Spec clusterIpService))"
    by (simp add: ips ports)
  have port: "Sprintf_d 8080 = ''8080''"
    by (simp add: Sprintf_d_def digits.simps digitChar_def)
  from getServiceEndpoints_ClusterIP [OF wait type len, of webConfig]
  have "getServiceEndpoints (quietKubectl\<lparr>services := [Inr [clusterIpService]]\<rparr>) webConfig ''web'' =
          Ok [''http://10.0.0.5:8080, (Service, Type: ClusterIP)'']"
    unfolding ips ports by (simp add: port)
  with wait type len show ?thesis by blast
qed

subsection \<open>Ingress endpoints\<close>

lemma ingressEndpointsLoop_Ok:
  "ingressEndpointsLoop lib protocol relativePath resources index rules acc = Ok endpoints \<Longrightarrow>
   (resources \<noteq> [] \<longrightarrow> index + length resources \<le> length rules) \<and>
   (\<exists>urls. length urls = length resources \<and>
           endpoints = acc @ map (\<lambda>url. url @ '', (Ingress, Type: LoadBalancer)'') urls \<and>
           (\<forall>j < length resources.
              url_JoinPath lib (ingressBaseUrl protocol (resources ! j) (rules ! (index + j)))
                relativePath = Inr (urls ! j)))"
proof (induction resources arbitrary: index acc)
  case Nil
  then show ?case by simp
next
  case (Cons resource resources)
  let ?base = "ingressBaseUrl protocol resource (rules ! index)"
  from Cons.prems have less: "index < length rules"
    by (simp split: if_splits)
  with Cons.prems obtain url where
    join: "url_JoinPath lib ?base relativePath = Inr url"
    and rest: "ingressEndpointsLoop lib protocol relativePath resources (Suc index) rules
                 (acc @ [url @ '', (Ingress, Type: LoadBalancer)'']) = Ok endpoints"
    by (auto simp: Let_def split: sum.splits)
  from Cons.IH [OF rest] obtain urls where
    bound: "resources \<noteq> [] \<longrightarrow> Suc index + length resources \<le> length rules"
    and len: "length urls = length resources"
    and eps: "endpoints = (acc @ [url @ '', (Ingress, Type: LoadBalancer)'']) @
                map (\<lambda>url. url @ '', (Ingress, Type: LoadBalancer)'') urls"
    and joins: "\<forall>j < length resources.
                  url_JoinPath lib (ingressBaseUrl protocol (resources ! j) (rules ! (Suc index + j)))
                    relativePath = Inr (urls ! j)"
    by blast
  have "\<forall>j < length (resource # resources).
          url_JoinPath lib
            (ingressBaseUrl protocol ((resource # resources) ! j) (rules ! (index + j)))
            relativePath = Inr ((url # urls) ! j)"
  proof (intro allI impI)
    fix j assume "j < length (resource # resources)"
    then show "url_JoinPath lib
                 (ingressBaseUrl protocol ((resource # resources) ! j) (rules ! (index + j)))
                 relativePath = Inr ((url # urls) ! j)"
      using join joins by (cases j) (simp_all cong: option.case_cong)
  qed
  moreover have "length (url # urls) = length (resource # resources)"
    using len by simp
  moreover have "endpoints = acc @ map (\<lambda>url. url @ '', (Ingress, Type: LoadBalancer)'') (url # urls)"
    using eps by simp
  moreover have "index + length (resource # resources) \<le> length rules"
    using bound less by (cases resources) simp_all
  ultimately show ?case by blast
qed

lemma ingressEndpointsLoop_Panic_iff:
  "index \<le> length rules \<Longrightarrow>
   ingressEndpointsLoop lib protocol relativePath resources index rules acc = Panic \<longleftrightarrow>
     length rules < index + length resources \<and>
     (\<forall>j. index + j < length rules \<longrightarrow>
          (\<exists>url. url_JoinPath lib (ingressBaseUrl protocol (resources ! j) (rules ! (index + j)))
                   relativePath = Inr url))"
proof (induction resources arbitrary: index acc)
  case Nil
  then show ?case by simp
next
  case (Cons resource resources)
  let ?base = "ingressBaseUrl protocol resource (rules ! index)"
  show ?case
  proof (cases "index < length rules")
    case False
    with Cons.prems show ?thesis by simp
  next
    case less: True
    show ?thesis
    proof (cases "url_JoinPath lib ?base relativePath")
      case (Inl err)
      with less have "ingressEndpointsLoop lib protocol relativePath (resource # resources) index
                        rules acc \<noteq> Panic"
        by (simp add: Let_def)
      moreover have "\<not> (\<forall>j. index + j < length rules \<longrightarrow>
                          (\<exists>url. url_JoinPath lib
                                   (ingressBaseUrl protocol ((resource # resources) ! j)
                                      (rules ! (index + j)))
                                   relativePath = Inr url))"
      proof
        assume "\<forall>j. index + j < length rules \<longrightarrow>
                    (\<exists>url. url_JoinPath lib
                             (ingressBaseUrl protocol ((resource # resources) ! j)
                                (rules ! (index + j)))
                             relativePath = Inr url)"
        from this [rule_format, of 0] less Inl show False by (simp cong: option.case_cong)
      qed
      ultimately show ?thesis by blast
    next
      case (Inr url)
      from less have suc: "Suc index \<le> length rules" by simp
      have step: "ingressEndpointsLoop lib protocol relativePath (resource # resources) index
                    rules acc =
                  ingressEndpointsLoop lib protocol relativePath resources (Suc index) rules
                    (acc @ [url @ '', (Ingress, Type: LoadBalancer)''])"
        using less Inr by (simp add: Let_def)
      have shift:
        "(\<forall>j. index + j < length rules \<longrightarrow>
              (\<exists>url. url_JoinPath lib
                       (ingressBaseUrl protocol ((resource # resources) ! j) (rules ! (index + j)))
                       relativePath = Inr url)) \<longleftrightarrow>
         (\<forall>j. Suc index + j < length rules \<longrightarrow>
              (\<exists>url. url_JoinPath lib
                       (ingressBaseUrl protocol (resources ! j) (rules ! (Suc index + j)))
                       relativePath = Inr url))"
        (is "(\<forall>j. ?P j) \<longleftrightarrow> (\<forall>j. ?Q j)")
      proof
        assume all: "\<forall>j. ?P j"
        show "\<forall>j. ?Q j"
        proof
          fix j from all [rule_format, of "Suc j"] show "?Q j" by (simp cong: option.case_cong)
        qed
      next
        assume all: "\<forall>j. ?Q j"
        show "\<forall>j. ?P j"
        proof
          fix j show "?P j"
          proof (cases j)
            case 0
            with Inr show ?thesis by (simp cong: option.case_cong)
          next
            case (Suc k)
            with all [rule_format, of k] show ?thesis by (simp cong: option.case_cong)
          qed
        qed
      qed
      show ?thesis
        unfolding step Cons.IH [OF suc] shift by simp
    qed
  qed
qed


lemma getIngressEndpoints_Ok:
  assumes "waitForIngress cli resourceFilter = Inr ingress"
    and "getIngressEndpoints lib cli serviceConfig resourceFilter = Ok endpoints"
  shows "length (LoadBalancer.Ingress (IngressStatus.LoadBalancer (Status ingress))) \<le>
           length (Rules (Spec ingress)) \<and>
         (\<exists>urls.
            length urls = length (LoadBalancer.Ingress (IngressStatus.LoadBalancer (Status ingress))) \<and>
            endpoints = map (\<lambda>url. url @ '', (Ingress, Type: LoadBalancer)'') urls \<and>
            (\<forall>j < length (LoadBalancer.Ingress (IngressStatus.LoadBalancer (Status ingress))).
               url_JoinPath lib
                 (ingressBaseUrl (if length (Tls (Spec ingress)) = 0 then ''http'' else ''https'')
                    (LoadBalancer.Ingress (IngressStatus.LoadBalancer (Status ingress)) ! j)
                    (Rules (Spec ingress) ! j))
                 (AksIngressOptions.RelativePath (Ingress (K8s serviceConfig))) = Inr (urls ! j)))"
proof -
  let ?entries = "LoadBalancer.Ingress (IngressStatus.LoadBalancer (Status ingress))"
  let ?protocol = "if length (Tls (Spec ingress)) = 0 then ''http'' else ''https''"
  from assms have
    "ingressEndpointsLoop lib ?protocol (AksIngressOptions.RelativePath (Ingress (K8s serviceConfig)))
       ?entries 0 (Rules (Spec ingress)) [] = Ok endpoints"
    by (simp add: getIngressEndpoints_def Let_def)
  from ingressEndpointsLoop_Ok [OF this] show ?thesis
    by (cases ?entries) simp_all
qed

text \<open>
  C4. For an ingress that the wait returned and for which endpoints were produced, one
  protocol serves all of them: it is \<open>https\<close> exactly when \<open>Spec.Tls\<close> is not empty and
  \<open>http\<close> exactly when it is empty, and every endpoint is what \<open>url.JoinPath\<close> made of a
  base URL that starts with this protocol and \<open>://\<close>, followed by the tag of the ingress.
  When \<open>url.JoinPath\<close> keeps its base as the beginning of its result, every endpoint itself
  starts with the protocol and \<open>://\<close>.
\<close>

theorem getIngressEndpoints_protocol:
  assumes "waitForIngress cli resourceFilter = Inr ingress"
    and "getIngressEndpoints lib cli serviceConfig resourceFilter = Ok endpoints"
  shows "\<exists>protocol urls.
           (protocol = ''https'' \<longleftrightarrow> 0 < length (Tls (Spec ingress))) \<and>
           (protocol = ''http'' \<longleftrightarrow> length (Tls (Spec ingress)) = 0) \<and>
           endpoints = map (\<lambda>url. url @ '', (Ingress, Type: LoadBalancer)'') urls \<and>
           length urls = length (LoadBalancer.Ingress (IngressStatus.LoadBalancer (Status ingress))) \<and>
           (\<forall>i < length urls.
              \<exists>hostOrIp.
                url_JoinPath lib (protocol @ ''://'' @ hostOrIp)
                  (AksIngressOptions.RelativePath (Ingress (K8s serviceConfig))) = Inr (urls ! i)) \<and>
           ((\<forall>base elem url. url_JoinPath lib base elem = Inr url \<longrightarrow> take (length base) url = base)
            \<longrightarrow> (\<forall>endpoint \<in> set endpoints.
                   take (length (protocol @ ''://'')) endpoint = protocol @ ''://''))"
proof -
  let ?entries = "LoadBalancer.Ingress (IngressStatus.LoadBalancer (Status ingress))"
  let ?protocol = "if length (Tls (Spec ingress)) = 0 then ''http'' else ''https''"
  let ?rel = "AksIngressOptions.RelativePath (Ingress (K8s serviceConfig))"
  from getIngressEndpoints_Ok [OF assms] obtain urls where
    len: "length urls = length ?entries"
    and eps: "endpoints = map (\<lambda>url. url @ '', (Ingress, Type: LoadBalancer)'') urls"
    and joins: "\<forall>j < length ?entries.
                  url_JoinPath lib (ingressBaseUrl ?protocol (?entries ! j) (Rules (Spec ingress) ! j))
                    ?rel = Inr (urls ! j)"
    by blast
  have base: "\<forall>i < length urls.
                \<exists>hostOrIp. url_JoinPath lib (?protocol @ ''://'' @ hostOrIp) ?rel = Inr (urls ! i)"
  proof (intro allI impI)
    fix i assume "i < length urls"
    with len joins have
      "url_JoinPath lib (ingressBaseUrl ?protocol (?entries ! i) (Rules (Spec ingress) ! i)) ?rel =
         Inr (urls ! i)"
      by simp
    then show "\<exists>hostOrIp. url_JoinPath lib (?protocol @ ''://'' @ hostOrIp) ?rel = Inr (urls ! i)"
      by (cases "Host (Rules (Spec ingress) ! i)") auto
  qed
  have prefix:
    "(\<forall>base elem url. url_JoinPath lib base elem = Inr url \<longrightarrow> take (length base) url = base)
     \<longrightarrow> (\<forall>endpoint \<in> set endpoints.
            take (length (?protocol @ ''://'')) endpoint = ?protocol @ ''://'')"
  proof (intro impI ballI)
    fix endpoint
    assume keeps: "\<forall>base elem url. url_JoinPath lib base elem = Inr url \<longrightarrow>
                     take (length base) url = base"
      and "endpoint \<in> set endpoints"
    then obtain i where i: "i < length urls"
      and endpoint: "endpoint = urls ! i @ '', (Ingress, Type: LoadBalancer)''"
      unfolding eps by (auto simp: in_set_conv_nth)
    from base i obtain hostOrIp where
      join: "url_JoinPath lib (?protocol @ ''://'' @ hostOrIp) ?rel = Inr (urls ! i)"
      by blast
    from keeps join have
      whole: "take (length (?protocol @ ''://'' @ hostOrIp)) (urls ! i) = ?protocol @ ''://'' @ hostOrIp"
      by blast
    then have "length (?protocol @ ''://'' @ hostOrIp) \<le> length (urls ! i)"
      by (metis length_take min.cobounded1)
    then obtain rest where "urls ! i = (?protocol @ ''://'' @ hostOrIp) @ rest"
      using whole by (metis append_take_drop_id)
    then have "endpoint = (?protocol @ ''://'') @ (hostOrIp @ rest @ '', (Ingress, Type: LoadBalancer)'')"
      using endpoint by simp
    then show "take (length (?protocol @ ''://'')) endpoint = ?protocol @ ''://''"
      by (metis append_eq_conv_conj)
  qed
  have "(?protocol = ''https'' \<longleftrightarrow> 0 < length (Tls (Spec ingress))) \<and>
        (?protocol = ''http'' \<longleftrightarrow> length (Tls (Spec ingress)) = 0)"
    by simp
  with eps len base prefix show ?thesis by blast
qed

lemma plainJoinPath_keeps_base:
  "plainJoinPath base elem = Inr url \<Longrightarrow> take (length base) url = base"
  by (auto simp: plainJoinPath_def Let_def split: if_splits)

theorem getIngressEndpoints_protocol_witness:
  "waitForIngress (quietKubectl\<lparr>ingresses := [Inr [tlsIngress]]\<rparr>) ''web'' = Inr tlsIngress \<and>
   getIngressEndpoints exampleStdlib (quietKubectl\<lparr>ingresses := [Inr [tlsIngress]]\<rparr>) webConfig ''web'' =
     Ok [''https://1.2.3.4/app, (Ingress, Type: LoadBalancer)''] \<and>
   0 < length (Tls (Spec tlsIngress)) \<and>
   take (length ''https://'') ''https://1.2.3.4/app, (Ingress, Type: LoadBalancer)'' = ''https://''"
proof -
  let ?cli = "quietKubectl\<lparr>ingresses := [Inr [tlsIngress]]\<rparr>"
  have wait: "waitForIngress ?cli ''web'' = Inr tlsIngress"
    by (simp add: waitForIngress_def WaitForResource_def quietKubectl_def tlsIngress_def)
  have join: "plainJoinPath ''https://1.2.3.4'' ''/app'' = Inr ''https://1.2.3.4/app''"
    by (simp add: plainJoinPath_def Let_def)
  have run: "getIngressEndpoints exampleStdlib ?cli webConfig ''web'' =
               Ok [''https://1.2.3.4/app, (Ingress, Type: LoadBalancer)'']"
    unfolding getIngressEndpoints_def wait
    by (simp add: tlsIngress_def webConfig_def exampleStdlib_def join)
  have tls: "0 < length (Tls (Spec tlsIngress))"
    by (simp add: tlsIngress_def)
  have keeps: "\<forall>base elem url. url_JoinPath exampleStdlib base elem = Inr url \<longrightarrow>
                 take (length base) url = base"
    by (simp add: exampleStdlib_def plainJoinPath_keeps_base)
  from getIngressEndpoints_protocol [OF wait run] obtain protocol urls where
    https: "protocol = ''https'' \<longleftrightarrow> 0 < length (Tls (Spec tlsIngress))"
    and starts: "(\<forall>base elem url. url_JoinPath exampleStdlib base elem = Inr url \<longrightarrow>
                    take (length base) url = base) \<longrightarrow>
                 (\<forall>endpoint \<in> set [''https://1.2.3.4/app, (Ingress, Type: LoadBalancer)''].
                    take (length (protocol @ ''://'')) endpoint = protocol @ ''://'')"
    by (elim exE conjE)
  from https tls have protocol: "protocol = ''https''" by (rule iffD2)
  from starts keeps have
    "\<forall>endpoint \<in> set [''https://1.2.3.4/app, (Ingress, Type: LoadBalancer)''].
       take (length (protocol @ ''://'')) endpoint = protocol @ ''://''"
    by (rule mp)
  then have
    "take (length ''https://'') ''https://1.2.3.4/app, (Ingress, Type: LoadBalancer)'' = ''https://''"
    unfolding protocol by simp
  with wait run tls show ?thesis by (intro conjI)
qed



text \<open>
  C9. Both loops index by position without a check of the lengths. For a ClusterIP service
  that the wait returned, \<open>getServiceEndpoints\<close> panics exactly when there are fewer ports than
  cluster IPs. For an ingress that the wait returned, \<open>getIngressEndpoints\<close> panics exactly
  when there are fewer rules than load-balancer entries and \<open>url.JoinPath\<close> succeeds for every
  rule there is (a failure of it returns an error before the missing rule is reached). So no
  read is out of range when the ports are at least as many as the cluster IPs and the rules
  at least as many as the load-balancer entries, and some inputs without that make the read
  out of range.
\<close>

theorem positional_indexing_unvalidated:
  "(waitForService cli serviceNameFilter = Inr service \<and>
    Type (Spec service) = ServiceTypeClusterIp \<longrightarrow>
      (getServiceEndpoints cli serviceConfig serviceNameFilter = Panic \<longleftrightarrow>
         length (Ports (Spec service)) < length (ClusterIps (Spec service)))) \<and>
   (waitForIngress cli resourceFilter = Inr ingress \<longrightarrow>
      (getIngressEndpoints lib cli serviceConfig resourceFilter = Panic \<longleftrightarrow>
         length (Rules (Spec ingress)) <
           length (LoadBalancer.Ingress (IngressStatus.LoadBalancer (Status ingress))) \<and>
         (\<forall>j < length (Rules (Spec ingress)).
            \<exists>url. url_JoinPath lib
                    (ingressBaseUrl (if length (Tls (Spec ingress)) = 0 then ''http'' else ''https'')
                       (LoadBalancer.Ingress (IngressStatus.LoadBalancer (Status ingress)) ! j)
                       (Rules (Spec ingress) ! j))
                    (AksIngressOptions.RelativePath (Ingress (K8s serviceConfig))) = Inr url)))"
proof (intro conjI impI)
  assume "waitForService cli serviceNameFilter = Inr service \<and>
          Type (Spec service) = ServiceTypeClusterIp"
  then show "getServiceEndpoints cli serviceConfig serviceNameFilter = Panic \<longleftrightarrow>
             length (Ports (Spec service)) < length (ClusterIps (Spec service))"
    by (simp add: getServiceEndpoints_def service_types_distinct clusterIpEndpointsLoop_Panic_iff)
next
  assume wait: "waitForIngress cli resourceFilter = Inr ingress"
  have "0 \<le> length (Rules (Spec ingress))" by simp
  from ingressEndpointsLoop_Panic_iff [OF this] wait
  show "getIngressEndpoints lib cli serviceConfig resourceFilter = Panic \<longleftrightarrow>
        length (Rules (Spec ingress)) <
          length (LoadBalancer.Ingress (IngressStatus.LoadBalancer (Status ingress))) \<and>
        (\<forall>j < length (Rules (Spec ingress)).
           \<exists>url. url_JoinPath lib
                   (ingressBaseUrl (if length (Tls (Spec ingress)) = 0 then ''http'' else ''https'')
                      (LoadBalancer.Ingress (IngressStatus.LoadBalancer (Status ingress)) ! j)
                      (Rules (Spec ingress) ! j))
                   (AksIngressOptions.RelativePath (Ingress (K8s serviceConfig))) = Inr url)"
    by (simp add: getIngressEndpoints_def Let_def)
qed

theorem positional_indexing_unvalidated_witness:
  "waitForService (quietKubectl\<lparr>services := [Inr [dualStackService]],
                                ingresses := [Inr [defaultBackendIngress]]\<rparr>) ''web'' =
     Inr dualStackService \<and>
   Type (Spec dualStackService) = ServiceTypeClusterIp \<and>
   length (Ports (Spec dualStackService)) < length (ClusterIps (Spec dualStackService)) \<and>
   getServiceEndpoints (quietKubectl\<lparr>services := [Inr [dualStackService]],
                                     ingresses := [Inr [defaultBackendIngress]]\<rparr>) webConfig ''web'' =
     Panic \<and>
   waitForIngress (quietKubectl\<lparr>services := [Inr [dualStackService]],
                                ingresses := [Inr [defaultBackendIngress]]\<rparr>) ''web'' =
     Inr defaultBackendIngress \<and>
   length (Rules (Spec defaultBackendIngress)) <
     length (LoadBalancer.Ingress (IngressStatus.LoadBalancer (Status defaultBackendIngress))) \<and>
   getIngressEndpoints exampleStdlib
     (quietKubectl\<lparr>services := [Inr [dualStackService]],
                    ingresses := [Inr [defaultBackendIngress]]\<rparr>) webConfig ''web'' = Panic"
proof -
  let ?cli = "quietKubectl\<lparr>services := [Inr [dualStackService]],
                           ingresses := [Inr [defaultBackendIngress]]\<rparr>"
  have waitService: "waitForService ?cli ''web'' = Inr dualStackService"
    by (simp add: waitForService_def WaitForResource_def quietKubectl_def dualStackService_def
        ServiceTypeLoadBalancer_def)
  have type: "Type (Spec dualStackService) = ServiceTypeClusterIp"
    by (simp add: dualStackService_def ServiceTypeClusterIp_def)
  have ports: "length (Ports (Spec dualStackService)) < length (ClusterIps (Spec dualStackService))"
    by (simp add: dualStackService_def)
  have waitIngress: "waitForIngress ?cli ''web'' = Inr defaultBackendIngress"
    by (simp add: waitForIngress_def WaitForResource_def quietKubectl_def defaultBackendIngress_def)
  have rules: "length (Rules (Spec defaultBackendIngress)) <
                 length (LoadBalancer.Ingress (IngressStatus.LoadBalancer (Status defaultBackendIngress)))"
    by (simp add: defaultBackendIngress_def)
  have none: "length (Rules (Spec defaultBackendIngress)) = 0"
    by (simp add: defaultBackendIngress_def)
  note both = positional_indexing_unvalidated
    [of ?cli "''web''" dualStackService webConfig "''web''" defaultBackendIngress exampleStdlib]
  from both waitService type ports
  have service: "getServiceEndpoints ?cli webConfig ''web'' = Panic"
    by blast
  from both waitIngress rules none
  have ingress: "getIngressEndpoints exampleStdlib ?cli webConfig ''web'' = Panic"
    by simp
  from waitService type ports service waitIngress rules ingress show ?thesis by blast
qed


subsection \<open>The union of the endpoints\<close>

lemma waitForService_no_cycles: "services cli = [] \<Longrightarrow> waitForService cli name = Inl ErrResourceNotFound"
  by (simp add: waitForService_def WaitForResource_def)

lemma waitForIngress_no_cycles: "ingresses cli = [] \<Longrightarrow> waitForIngress cli name = Inl ErrResourceNotFound"
  by (simp add: waitForIngress_def WaitForResource_def)

lemma getServiceEndpoints_no_cycles:
  "services cli = [] \<Longrightarrow> getServiceEndpoints cli serviceConfig name = Err ErrResourceNotFound"
  by (simp add: getServiceEndpoints_def waitForService_no_cycles)

lemma getIngressEndpoints_no_cycles:
  "ingresses cli = [] \<Longrightarrow> getIngressEndpoints lib cli serviceConfig name = Err ErrResourceNotFound"
  by (simp add: getIngressEndpoints_def waitForIngress_no_cycles)

lemma getServiceEndpoints_query_fails:
  "services cli = [Inl err] \<Longrightarrow> getServiceEndpoints cli serviceConfig name = Err err"
  by (simp add: getServiceEndpoints_def waitForService_def WaitForResource_def)

lemma getIngressEndpoints_query_fails:
  "ingresses cli = [Inl err] \<Longrightarrow> getIngressEndpoints lib cli serviceConfig name = Err err"
  by (simp add: getIngressEndpoints_def waitForIngress_def WaitForResource_def)

lemma getServiceEndpoints_clusterIpService:
  "services cli = [Inr [clusterIpService]] \<Longrightarrow>
   getServiceEndpoints cli serviceConfig ''web'' =
     Ok [''http://10.0.0.5:8080, (Service, Type: ClusterIP)'']"
proof -
  assume cycles: "services cli = [Inr [clusterIpService]]"
  have port: "Sprintf_d 8080 = ''8080''"
    by (simp add: Sprintf_d_def digits.simps digitChar_def)
  have wait: "waitForService cli ''web'' = Inr clusterIpService"
    by (simp add: waitForService_def WaitForResource_def cycles clusterIpService_def
        ServiceTypeLoadBalancer_def)
  show ?thesis
    unfolding getServiceEndpoints_def wait
    by (simp add: clusterIpService_def ServiceTypeLoadBalancer_def ServiceTypeClusterIp_def port)
qed

lemma getIngressEndpoints_hostIngress:
  "ingresses cli = [Inr [hostIngress]] \<Longrightarrow>
   getIngressEndpoints exampleStdlib cli webConfig ''web'' =
     Ok [''http://example.com/app, (Ingress, Type: LoadBalancer)'']"
proof -
  assume cycles: "ingresses cli = [Inr [hostIngress]]"
  have join: "plainJoinPath ''http://example.com'' ''/app'' = Inr ''http://example.com/app''"
    by (simp add: plainJoinPath_def Let_def)
  have wait: "waitForIngress cli ''web'' = Inr hostIngress"
    by (simp add: waitForIngress_def WaitForResource_def cycles hostIngress_def)
  show ?thesis
    unfolding getIngressEndpoints_def wait
    by (simp add: hostIngress_def webConfig_def exampleStdlib_def join)
qed

lemma webConfig_name:
  "(if AksServiceOptions.Name (Service (K8s webConfig)) = '''' then ServiceConfig.Name webConfig
    else AksServiceOptions.Name (Service (K8s webConfig))) = ''web''"
  by (simp add: webConfig_def)

text \<open>
  C6. Let the service branch and the ingress branch of \<open>Endpoints\<close> be the two calls with the
  name the function computes. A failure of the service branch that is not
  \<open>ErrResourceNotFound\<close> makes \<open>Endpoints\<close> return an error, and so does such a failure of the
  ingress branch when the service branch returned endpoints or failed with
  \<open>ErrResourceNotFound\<close>. A branch that fails with \<open>ErrResourceNotFound\<close> contributes no
  endpoint: the result is then the endpoints of the other branch, none when both fail so, and
  otherwise the service endpoints followed by the ingress endpoints.
\<close>

theorem Endpoints_not_found_swallowed:
  assumes "name =
             (if AksServiceOptions.Name (Service (K8s serviceConfig)) = ''''
              then ServiceConfig.Name serviceConfig
              else AksServiceOptions.Name (Service (K8s serviceConfig)))"
    and "serviceBranch = getServiceEndpoints cli serviceConfig name"
    and "ingressBranch = getIngressEndpoints lib cli serviceConfig name"
  shows "(\<forall>err. serviceBranch = Err err \<and> \<not> errors_Is err ErrResourceNotFound \<longrightarrow>
            Endpoints lib cli serviceConfig =
              Err (ErrWrap ''failed retrieving service endpoints, '' err)) \<and>
         (\<forall>err. serviceBranch \<noteq> Panic \<and>
                (\<forall>err'. serviceBranch = Err err' \<longrightarrow> errors_Is err' ErrResourceNotFound) \<and>
                ingressBranch = Err err \<and> \<not> errors_Is err ErrResourceNotFound \<longrightarrow>
            Endpoints lib cli serviceConfig =
              Err (ErrWrap ''failed retrieving ingress endpoints, '' err)) \<and>
         (\<forall>err ingressEndpoints.
            serviceBranch = Err err \<and> errors_Is err ErrResourceNotFound \<and>
            ingressBranch = Ok ingressEndpoints \<longrightarrow>
            Endpoints lib cli serviceConfig = Ok ingressEndpoints) \<and>
         (\<forall>serviceEndpoints err.
            serviceBranch = Ok serviceEndpoints \<and>
            ingressBranch = Err err \<and> errors_Is err ErrResourceNotFound \<longrightarrow>
            Endpoints lib cli serviceConfig = Ok serviceEndpoints) \<and>
         (\<forall>err err'.
            serviceBranch = Err err \<and> errors_Is err ErrResourceNotFound \<and>
            ingressBranch = Err err' \<and> errors_Is err' ErrResourceNotFound \<longrightarrow>
            Endpoints lib cli serviceConfig = Ok []) \<and>
         (\<forall>serviceEndpoints ingressEndpoints.
            serviceBranch = Ok serviceEndpoints \<and> ingressBranch = Ok ingressEndpoints \<longrightarrow>
            Endpoints lib cli serviceConfig = Ok (serviceEndpoints @ ingressEndpoints))"
proof -
  have run: "Endpoints lib cli serviceConfig =
    (case serviceBranch of
       Panic \<Rightarrow> Panic
     | Err err \<Rightarrow>
         if \<not> errors_Is err ErrResourceNotFound
         then Err (ErrWrap ''failed retrieving service endpoints, '' err)
         else (case ingressBranch of
                 Panic \<Rightarrow> Panic
               | Err err \<Rightarrow>
                   if \<not> errors_Is err ErrResourceNotFound
                   then Err (ErrWrap ''failed retrieving ingress endpoints, '' err)
                   else Ok []
               | Ok ingressEndpoints \<Rightarrow> Ok ingressEndpoints)
     | Ok serviceEndpoints \<Rightarrow>
         (case ingressBranch of
            Panic \<Rightarrow> Panic
          | Err err \<Rightarrow>
              if \<not> errors_Is err ErrResourceNotFound
              then Err (ErrWrap ''failed retrieving ingress endpoints, '' err)
              else Ok serviceEndpoints
          | Ok ingressEndpoints \<Rightarrow> Ok (serviceEndpoints @ ingressEndpoints)))"
    unfolding Endpoints_def Let_def assms by (rule refl)
  show ?thesis
  proof (cases serviceBranch)
    case Panic
    then show ?thesis by simp
  next
    case (Err serviceErr)
    then show ?thesis
      unfolding run by (cases ingressBranch) simp_all
  next
    case (Ok serviceEndpoints)
    then show ?thesis
      unfolding run by (cases ingressBranch) simp_all
  qed
qed


theorem Endpoints_not_found_swallowed_witness:
  "Endpoints exampleStdlib (quietKubectl\<lparr>ingresses := [Inr [hostIngress]]\<rparr>) webConfig =
     Ok [''http://example.com/app, (Ingress, Type: LoadBalancer)''] \<and>
   Endpoints exampleStdlib (quietKubectl\<lparr>services := [Inl (ErrNew ''connection refused'')]\<rparr>)
     webConfig =
     Err (ErrWrap ''failed retrieving service endpoints, '' (ErrNew ''connection refused'')) \<and>
   Endpoints exampleStdlib (quietKubectl\<lparr>services := [Inr [clusterIpService]]\<rparr>) webConfig =
     Ok [''http://10.0.0.5:8080, (Service, Type: ClusterIP)''] \<and>
   Endpoints exampleStdlib
     (quietKubectl\<lparr>services := [Inr [clusterIpService]],
                    ingresses := [Inl (ErrNew ''connection refused'')]\<rparr>) webConfig =
     Err (ErrWrap ''failed retrieving ingress endpoints, '' (ErrNew ''connection refused'')) \<and>
   Endpoints exampleStdlib quietKubectl webConfig = Ok [] \<and>
   Endpoints exampleStdlib
     (quietKubectl\<lparr>services := [Inr [clusterIpService]], ingresses := [Inr [hostIngress]]\<rparr>)
     webConfig =
     Ok [''http://10.0.0.5:8080, (Service, Type: ClusterIP)'',
         ''http://example.com/app, (Ingress, Type: LoadBalancer)'']"
proof -
  note rule = Endpoints_not_found_swallowed [OF webConfig_name [symmetric] refl refl]
  have none: "services quietKubectl = []" "ingresses quietKubectl = []"
    by (simp_all add: quietKubectl_def)
  have notFound: "errors_Is ErrResourceNotFound ErrResourceNotFound"
    and refused: "\<not> errors_Is (ErrNew ''connection refused'') ErrResourceNotFound"
    by simp_all
  have "Endpoints exampleStdlib (quietKubectl\<lparr>ingresses := [Inr [hostIngress]]\<rparr>) webConfig =
          Ok [''http://example.com/app, (Ingress, Type: LoadBalancer)'']"
    using rule [where cli = "quietKubectl\<lparr>ingresses := [Inr [hostIngress]]\<rparr>"
                  and lib = exampleStdlib] notFound
    by (simp add: getServiceEndpoints_no_cycles getIngressEndpoints_hostIngress none)
  moreover
  have "Endpoints exampleStdlib (quietKubectl\<lparr>services := [Inl (ErrNew ''connection refused'')]\<rparr>)
          webConfig =
          Err (ErrWrap ''failed retrieving service endpoints, '' (ErrNew ''connection refused''))"
    using rule [where cli = "quietKubectl\<lparr>services := [Inl (ErrNew ''connection refused'')]\<rparr>"
                  and lib = exampleStdlib] refused
    by (simp add: getServiceEndpoints_query_fails)
  moreover
  have "Endpoints exampleStdlib (quietKubectl\<lparr>services := [Inr [clusterIpService]]\<rparr>) webConfig =
          Ok [''http://10.0.0.5:8080, (Service, Type: ClusterIP)'']"
    using rule [where cli = "quietKubectl\<lparr>services := [Inr [clusterIpService]]\<rparr>"
                  and lib = exampleStdlib] notFound
    by (simp add: getServiceEndpoints_clusterIpService getIngressEndpoints_no_cycles none)
  moreover
  have "Endpoints exampleStdlib
          (quietKubectl\<lparr>services := [Inr [clusterIpService]],
                         ingresses := [Inl (ErrNew ''connection refused'')]\<rparr>) webConfig =
          Err (ErrWrap ''failed retrieving ingress endpoints, '' (ErrNew ''connection refused''))"
    using rule [where cli = "quietKubectl\<lparr>services := [Inr [clusterIpService]],
                                          ingresses := [Inl (ErrNew ''connection refused'')]\<rparr>"
                  and lib = exampleStdlib] refused
    by (simp add: getServiceEndpoints_clusterIpService getIngressEndpoints_query_fails)
  moreover
  have "Endpoints exampleStdlib quietKubectl webConfig = Ok []"
    using rule [where cli = quietKubectl and lib = exampleStdlib] notFound
    by (simp add: getServiceEndpoints_no_cycles getIngressEndpoints_no_cycles none)
  moreover
  have "Endpoints exampleStdlib
          (quietKubectl\<lparr>services := [Inr [clusterIpService]], ingresses := [Inr [hostIngress]]\<rparr>)
          webConfig =
          Ok [''http://10.0.0.5:8080, (Service, Type: ClusterIP)'',
              ''http://example.com/app, (Ingress, Type: LoadBalancer)'']"
    using rule [where cli = "quietKubectl\<lparr>services := [Inr [clusterIpService]],
                                          ingresses := [Inr [hostIngress]]\<rparr>"
                  and lib = exampleStdlib]
    by (simp add: getServiceEndpoints_clusterIpService getIngressEndpoints_hostIngress)
  ultimately show ?thesis by (intro conjI)
qed


lemma getServiceEndpoints_cong:
  "waitForService cli name = waitForService cli' name \<Longrightarrow>
   getServiceEndpoints cli serviceConfig name = getServiceEndpoints cli' serviceConfig' name"
  by (simp add: getServiceEndpoints_def)

lemma getIngressEndpoints_cong:
  "waitForIngress cli name = waitForIngress cli' name \<Longrightarrow>
   AksIngressOptions.RelativePath (Ingress (K8s serviceConfig)) =
     AksIngressOptions.RelativePath (Ingress (K8s serviceConfig')) \<Longrightarrow>
   getIngressEndpoints lib cli serviceConfig name = getIngressEndpoints lib cli' serviceConfig' name"
  by (simp add: getIngressEndpoints_def cong: sum.case_cong)

text \<open>
  C10. \<open>Endpoints\<close> waits for the ingress under the same name as for the service: \<open>name\<close>, the
  configured name of the service (\<open>K8s.Service.Name\<close>), or the name of the service
  configuration when that is empty. When the service branch returned its endpoints, or none
  because it failed with \<open>ErrResourceNotFound\<close>, the result is made of them and of the
  ingress that the wait under \<open>name\<close> returns: an error of that wait other than
  \<open>ErrResourceNotFound\<close> is returned wrapped, \<open>ErrResourceNotFound\<close> leaves the service
  endpoints alone, and the endpoints built from the ingress found are appended to them. An
  error of the wait for the service under \<open>name\<close>, other than \<open>ErrResourceNotFound\<close>, is
  returned wrapped. So the result depends on the cluster only through the two waits under
  \<open>name\<close>, and the configured name of the ingress (\<open>K8s.Ingress.Name\<close>) is not used: the
  result is the same whatever it is.
\<close>

theorem Endpoints_ingress_name_filter:
  assumes "name =
             (if AksServiceOptions.Name (Service (K8s serviceConfig)) = ''''
              then ServiceConfig.Name serviceConfig
              else AksServiceOptions.Name (Service (K8s serviceConfig)))"
    and "viaIngress =
           (\<lambda>serviceEndpoints.
              case waitForIngress cli name of
                Inl err \<Rightarrow>
                  if \<not> errors_Is err ErrResourceNotFound
                  then Err (ErrWrap ''failed retrieving ingress endpoints, '' err)
                  else Ok serviceEndpoints
              | Inr ingress \<Rightarrow>
                  (case ingressEndpointsLoop lib
                          (if length (Tls (Spec ingress)) = 0 then ''http'' else ''https'')
                          (AksIngressOptions.RelativePath (Ingress (K8s serviceConfig)))
                          (LoadBalancer.Ingress (IngressStatus.LoadBalancer (Status ingress)))
                          0 (Rules (Spec ingress)) [] of
                     Panic \<Rightarrow> Panic
                   | Err err \<Rightarrow>
                       if \<not> errors_Is err ErrResourceNotFound
                       then Err (ErrWrap ''failed retrieving ingress endpoints, '' err)
                       else Ok serviceEndpoints
                   | Ok ingressEndpoints \<Rightarrow> Ok (serviceEndpoints @ ingressEndpoints)))"
  shows "(\<forall>serviceEndpoints.
            getServiceEndpoints cli serviceConfig name = Ok serviceEndpoints \<longrightarrow>
            Endpoints lib cli serviceConfig = viaIngress serviceEndpoints) \<and>
         (\<forall>err. getServiceEndpoints cli serviceConfig name = Err err \<and>
                errors_Is err ErrResourceNotFound \<longrightarrow>
            Endpoints lib cli serviceConfig = viaIngress []) \<and>
         (\<forall>err. waitForService cli name = Inl err \<and> \<not> errors_Is err ErrResourceNotFound \<longrightarrow>
            Endpoints lib cli serviceConfig =
              Err (ErrWrap ''failed retrieving service endpoints, '' err)) \<and>
         (waitForService cli name = waitForService cli' name \<and>
          waitForIngress cli name = waitForIngress cli' name \<longrightarrow>
            Endpoints lib cli serviceConfig = Endpoints lib cli' serviceConfig) \<and>
         Endpoints lib cli
           (serviceConfig\<lparr>K8s := (K8s serviceConfig)\<lparr>Ingress :=
              (Ingress (K8s serviceConfig))\<lparr>AksIngressOptions.Name := ingressName\<rparr>\<rparr>\<rparr>) =
           Endpoints lib cli serviceConfig"
proof -
  let ?renamed = "serviceConfig\<lparr>K8s := (K8s serviceConfig)\<lparr>Ingress :=
                    (Ingress (K8s serviceConfig))\<lparr>AksIngressOptions.Name := ingressName\<rparr>\<rparr>\<rparr>"
  let ?S = "getServiceEndpoints cli serviceConfig name"
  let ?I = "getIngressEndpoints lib cli serviceConfig name"
  have run: "Endpoints lib cli serviceConfig =
    (case ?S of
       Panic \<Rightarrow> Panic
     | Err err \<Rightarrow>
         if \<not> errors_Is err ErrResourceNotFound
         then Err (ErrWrap ''failed retrieving service endpoints, '' err)
         else (case ?I of
                 Panic \<Rightarrow> Panic
               | Err err \<Rightarrow>
                   if \<not> errors_Is err ErrResourceNotFound
                   then Err (ErrWrap ''failed retrieving ingress endpoints, '' err)
                   else Ok []
               | Ok ingressEndpoints \<Rightarrow> Ok ingressEndpoints)
     | Ok serviceEndpoints \<Rightarrow>
         (case ?I of
            Panic \<Rightarrow> Panic
          | Err err \<Rightarrow>
              if \<not> errors_Is err ErrResourceNotFound
              then Err (ErrWrap ''failed retrieving ingress endpoints, '' err)
              else Ok serviceEndpoints
          | Ok ingressEndpoints \<Rightarrow> Ok (serviceEndpoints @ ingressEndpoints)))"
    unfolding Endpoints_def Let_def assms(1) [symmetric] by (rule refl)
  have ingressBranch: "?I =
    (case waitForIngress cli name of
       Inl err \<Rightarrow> Err err
     | Inr ingress \<Rightarrow>
         ingressEndpointsLoop lib
           (if length (Tls (Spec ingress)) = 0 then ''http'' else ''https'')
           (AksIngressOptions.RelativePath (Ingress (K8s serviceConfig)))
           (LoadBalancer.Ingress (IngressStatus.LoadBalancer (Status ingress)))
           0 (Rules (Spec ingress)) [])"
    unfolding getIngressEndpoints_def Let_def by (rule refl)
  have found: "\<forall>serviceEndpoints.
                 ?S = Ok serviceEndpoints \<longrightarrow>
                 Endpoints lib cli serviceConfig = viaIngress serviceEndpoints"
  proof (intro allI impI)
    fix serviceEndpoints
    assume "?S = Ok serviceEndpoints"
    then show "Endpoints lib cli serviceConfig = viaIngress serviceEndpoints"
      unfolding run assms(2) ingressBranch
      by (simp split: sum.splits result.splits)
  qed
  have absent: "\<forall>err. ?S = Err err \<and> errors_Is err ErrResourceNotFound \<longrightarrow>
                  Endpoints lib cli serviceConfig = viaIngress []"
  proof (intro allI impI)
    fix err
    assume "?S = Err err \<and> errors_Is err ErrResourceNotFound"
    then show "Endpoints lib cli serviceConfig = viaIngress []"
      unfolding run assms(2) ingressBranch
      by (simp split: sum.splits result.splits)
  qed
  have failed: "\<forall>err. waitForService cli name = Inl err \<and> \<not> errors_Is err ErrResourceNotFound \<longrightarrow>
                  Endpoints lib cli serviceConfig =
                    Err (ErrWrap ''failed retrieving service endpoints, '' err)"
  proof (intro allI impI)
    fix err
    assume wait: "waitForService cli name = Inl err \<and> \<not> errors_Is err ErrResourceNotFound"
    then have "?S = Err err" by (simp add: getServiceEndpoints_def)
    with wait show "Endpoints lib cli serviceConfig =
                      Err (ErrWrap ''failed retrieving service endpoints, '' err)"
      unfolding run by simp
  qed
  have same: "waitForService cli name = waitForService cli' name \<and>
              waitForIngress cli name = waitForIngress cli' name \<longrightarrow>
              Endpoints lib cli serviceConfig = Endpoints lib cli' serviceConfig"
  proof
    assume waits: "waitForService cli name = waitForService cli' name \<and>
                   waitForIngress cli name = waitForIngress cli' name"
    have service: "getServiceEndpoints cli serviceConfig name =
                   getServiceEndpoints cli' serviceConfig name"
      using waits by (intro getServiceEndpoints_cong) simp
    have ingress: "getIngressEndpoints lib cli serviceConfig name =
                   getIngressEndpoints lib cli' serviceConfig name"
      using waits by (intro getIngressEndpoints_cong) simp_all
    show "Endpoints lib cli serviceConfig = Endpoints lib cli' serviceConfig"
      unfolding Endpoints_def Let_def assms(1) [symmetric] service ingress by (rule refl)
  qed
  have service': "getServiceEndpoints cli ?renamed name = getServiceEndpoints cli serviceConfig name"
    by (rule getServiceEndpoints_cong) (rule refl)
  have ingress': "getIngressEndpoints lib cli ?renamed name =
                  getIngressEndpoints lib cli serviceConfig name"
    by (rule getIngressEndpoints_cong) simp_all
  have name': "(if AksServiceOptions.Name (Service (K8s ?renamed)) = ''''
                then ServiceConfig.Name ?renamed
                else AksServiceOptions.Name (Service (K8s ?renamed))) = name"
    using assms(1) by simp
  have unused: "Endpoints lib cli ?renamed = Endpoints lib cli serviceConfig"
    unfolding Endpoints_def Let_def name' assms(1) [symmetric] service' ingress' by (rule refl)
  from found absent failed same unused show ?thesis by (intro conjI)
qed

theorem Endpoints_ingress_name_filter_witness:
  "AksIngressOptions.Name (Ingress (K8s gatewayConfig)) = ''gateway'' \<and>
   AksServiceOptions.Name (Service (K8s gatewayConfig)) = '''' \<and>
   ServiceConfig.Name gatewayConfig = ''web'' \<and>
   waitForIngress (quietKubectl\<lparr>ingresses := [Inr [gatewayIngress, hostIngress]]\<rparr>) ''gateway'' =
     Inr gatewayIngress \<and>
   waitForIngress (quietKubectl\<lparr>ingresses := [Inr [gatewayIngress, hostIngress]]\<rparr>) ''web'' =
     Inr hostIngress \<and>
   Endpoints exampleStdlib (quietKubectl\<lparr>ingresses := [Inr [gatewayIngress, hostIngress]]\<rparr>)
     gatewayConfig =
     Ok [''http://example.com/app, (Ingress, Type: LoadBalancer)''] \<and>
   waitForIngress (quietKubectl\<lparr>ingresses := [Inr [gatewayIngress]]\<rparr>) ''web'' =
     Inl ErrResourceNotFound \<and>
   Endpoints exampleStdlib (quietKubectl\<lparr>ingresses := [Inr [gatewayIngress]]\<rparr>) gatewayConfig =
     Ok [] \<and>
   Endpoints exampleStdlib (quietKubectl\<lparr>ingresses := [Inr [gatewayIngress]]\<rparr>) webConfig = Ok [] \<and>
   Endpoints exampleStdlib (quietKubectl\<lparr>services := [Inl (ErrNew ''connection refused'')]\<rparr>)
     gatewayConfig =
     Err (ErrWrap ''failed retrieving service endpoints, '' (ErrNew ''connection refused''))"
proof -
  let ?both = "quietKubectl\<lparr>ingresses := [Inr [gatewayIngress, hostIngress]]\<rparr>"
  let ?gateway = "quietKubectl\<lparr>ingresses := [Inr [gatewayIngress]]\<rparr>"
  let ?refusing = "quietKubectl\<lparr>services := [Inl (ErrNew ''connection refused'')]\<rparr>"
  have none: "services quietKubectl = []" "ingresses quietKubectl = []"
    by (simp_all add: quietKubectl_def)
  have configured: "AksIngressOptions.Name (Ingress (K8s gatewayConfig)) = ''gateway''"
    and unnamed: "AksServiceOptions.Name (Service (K8s gatewayConfig)) = ''''"
    and named: "ServiceConfig.Name gatewayConfig = ''web''"
    and path: "AksIngressOptions.RelativePath (Ingress (K8s gatewayConfig)) = ''/app''"
    by (simp_all add: gatewayConfig_def webConfig_def)
  have name: "''web'' =
                (if AksServiceOptions.Name (Service (K8s gatewayConfig)) = ''''
                 then ServiceConfig.Name gatewayConfig
                 else AksServiceOptions.Name (Service (K8s gatewayConfig)))"
    by (simp add: unnamed named)
  have byIngressName: "waitForIngress ?both ''gateway'' = Inr gatewayIngress"
    by (simp add: waitForIngress_def WaitForResource_def gatewayIngress_def hostIngress_def)
  have byServiceName: "waitForIngress ?both ''web'' = Inr hostIngress"
    by (simp add: waitForIngress_def WaitForResource_def gatewayIngress_def hostIngress_def)
  have missed: "waitForIngress ?gateway ''web'' = Inl ErrResourceNotFound"
    by (simp add: waitForIngress_def WaitForResource_def gatewayIngress_def)
  have join: "plainJoinPath ''http://example.com'' ''/app'' = Inr ''http://example.com/app''"
    by (simp add: plainJoinPath_def Let_def)
  have tls: "Tls (Spec hostIngress) = []"
    by (simp add: hostIngress_def)
  have loop: "ingressEndpointsLoop exampleStdlib ''http'' ''/app''
                (LoadBalancer.Ingress (IngressStatus.LoadBalancer (Status hostIngress)))
                0 (Rules (Spec hostIngress)) [] =
              Ok [''http://example.com/app, (Ingress, Type: LoadBalancer)'']"
    by (simp add: hostIngress_def exampleStdlib_def join)
  have noService: "\<And>cli. services cli = [] \<Longrightarrow>
                     getServiceEndpoints cli gatewayConfig ''web'' = Err ErrResourceNotFound"
    by (rule getServiceEndpoints_no_cycles)
  have notFound: "errors_Is ErrResourceNotFound ErrResourceNotFound"
    and refused: "\<not> errors_Is (ErrNew ''connection refused'') ErrResourceNotFound"
    by simp_all
  note rule = Endpoints_ingress_name_filter [OF name refl]
  from rule [where cli = ?both and lib = exampleStdlib]
  have "getServiceEndpoints ?both gatewayConfig ''web'' = Err ErrResourceNotFound \<and>
        errors_Is ErrResourceNotFound ErrResourceNotFound \<longrightarrow>
        Endpoints exampleStdlib ?both gatewayConfig =
          (case waitForIngress ?both ''web'' of
             Inl err \<Rightarrow>
               if \<not> errors_Is err ErrResourceNotFound
               then Err (ErrWrap ''failed retrieving ingress endpoints, '' err)
               else Ok []
           | Inr ingress \<Rightarrow>
               (case ingressEndpointsLoop exampleStdlib
                       (if length (Tls (Spec ingress)) = 0 then ''http'' else ''https'')
                       (AksIngressOptions.RelativePath (Ingress (K8s gatewayConfig)))
                       (LoadBalancer.Ingress (IngressStatus.LoadBalancer (Status ingress)))
                       0 (Rules (Spec ingress)) [] of
                  Panic \<Rightarrow> Panic
                | Err err \<Rightarrow>
                    if \<not> errors_Is err ErrResourceNotFound
                    then Err (ErrWrap ''failed retrieving ingress endpoints, '' err)
                    else Ok []
                | Ok ingressEndpoints \<Rightarrow> Ok ([] @ ingressEndpoints)))"
    by blast
  then have selected:
    "Endpoints exampleStdlib ?both gatewayConfig =
       Ok [''http://example.com/app, (Ingress, Type: LoadBalancer)'']"
    unfolding byServiceName path
    by (simp add: noService none tls loop)
  have sameIngress: "waitForIngress ?gateway ''web'' = waitForIngress quietKubectl ''web''"
    by (simp add: missed waitForIngress_no_cycles none)
  have sameService: "waitForService ?gateway ''web'' = waitForService quietKubectl ''web''"
    by (simp add: waitForService_no_cycles none)
  have quiet: "Endpoints exampleStdlib quietKubectl webConfig = Ok []"
    by (simp add: Endpoints_def webConfig_name getServiceEndpoints_no_cycles
        getIngressEndpoints_no_cycles none)
  have renamed: "gatewayConfig =
                   webConfig\<lparr>K8s := (K8s webConfig)\<lparr>Ingress :=
                     (Ingress (K8s webConfig))\<lparr>AksIngressOptions.Name := ''gateway''\<rparr>\<rparr>\<rparr>"
    by (simp add: gatewayConfig_def)
  note onWeb = Endpoints_ingress_name_filter [OF webConfig_name [symmetric] refl]
  from onWeb [where cli = ?gateway and cli' = quietKubectl and lib = exampleStdlib
                and ingressName = "''gateway''"] sameService sameIngress
  have "Endpoints exampleStdlib ?gateway webConfig = Endpoints exampleStdlib quietKubectl webConfig"
    and "Endpoints exampleStdlib ?gateway gatewayConfig = Endpoints exampleStdlib ?gateway webConfig"
    unfolding renamed by blast+
  with quiet have unselected: "Endpoints exampleStdlib ?gateway gatewayConfig = Ok []"
    and plain: "Endpoints exampleStdlib ?gateway webConfig = Ok []"
    by simp_all
  have refusedWait: "waitForService ?refusing ''web'' = Inl (ErrNew ''connection refused'')"
    by (simp add: waitForService_def WaitForResource_def)
  from rule [where cli = ?refusing and lib = exampleStdlib] refusedWait refused
  have serviceFails:
    "Endpoints exampleStdlib ?refusing gatewayConfig =
       Err (ErrWrap ''failed retrieving service endpoints, '' (ErrNew ''connection refused''))"
    by blast
  from configured unnamed named byIngressName byServiceName selected missed unselected plain
    serviceFails
  show ?thesis by (intro conjI)
qed

subsection \<open>The rollout verifier\<close>

lemma waitForDeployment_fst:
  "fst (waitForDeployment t deploymentNameFilter s) =
   fst (waitForDeployment t deploymentNameFilter s')"
  by (simp add: waitForDeployment_def Let_def split: sum.splits option.splits)

lemma waitForDeployment_Inr:
  "fst (waitForDeployment t deploymentNameFilter s) = Inr deployment \<Longrightarrow>
   AvailableReplicas (Status deployment) = Replicas (Spec deployment)"
  by (auto simp: waitForDeployment_def Let_def split: sum.splits option.splits
      dest: WaitForResource_Inr)

text \<open>
  C2. The readiness predicate of \<open>waitForDeployment\<close> is the equality of
  \<open>Status.AvailableReplicas\<close> and \<open>Spec.Replicas\<close>: a deployment that the function returns
  has the two equal, and a deployment whose name matches the filter, read alone from the
  cluster and with a successful rollout status, is returned exactly when the two are equal
  (so it is not when more replicas are available than desired).
\<close>

theorem waitForDeployment_ready_iff:
  "(fst (waitForDeployment t deploymentNameFilter s) = Inr deployment \<longrightarrow>
      AvailableReplicas (Status deployment) = Replicas (Spec deployment)) \<and>
   (strings_Contains (ResourceMetadata.Name (Metadata deployment)) deploymentNameFilter \<and>
    deployments (kubectl t) = [Inr [deployment]] \<and>
    RolloutStatus (kubectl t) (ResourceMetadata.Name (Metadata deployment)) = None \<longrightarrow>
      (fst (waitForDeployment t deploymentNameFilter s) = Inr deployment \<longleftrightarrow>
       AvailableReplicas (Status deployment) = Replicas (Spec deployment)))"
proof (intro conjI impI)
  assume "fst (waitForDeployment t deploymentNameFilter s) = Inr deployment"
  then show "AvailableReplicas (Status deployment) = Replicas (Spec deployment)"
    by (rule waitForDeployment_Inr)
next
  assume alone:
    "strings_Contains (ResourceMetadata.Name (Metadata deployment)) deploymentNameFilter \<and>
     deployments (kubectl t) = [Inr [deployment]] \<and>
     RolloutStatus (kubectl t) (ResourceMetadata.Name (Metadata deployment)) = None"
  then have "WaitForResource (deployments (kubectl t))
               (\<lambda>deployment.
                  strings_Contains (ResourceMetadata.Name (Metadata deployment)) deploymentNameFilter)
               (\<lambda>deployment. AvailableReplicas (Status deployment) = Replicas (Spec deployment)) =
             (if AvailableReplicas (Status deployment) = Replicas (Spec deployment)
              then Inr deployment else Inl (ErrNew ''timed out waiting for resource''))"
    by (simp add: WaitForResource_def)
  with alone show "fst (waitForDeployment t deploymentNameFilter s) = Inr deployment \<longleftrightarrow>
                   AvailableReplicas (Status deployment) = Replicas (Spec deployment)"
    by (simp add: waitForDeployment_def Let_def)
qed

theorem waitForDeployment_ready_iff_witness:
  "strings_Contains (ResourceMetadata.Name (Metadata settledDeployment)) ''web'' \<and>
   fst (waitForDeployment (quietTarget\<lparr>kubectl := quietKubectl\<lparr>deployments := [Inr [settledDeployment]]\<rparr>\<rparr>)
          ''web'' freshState) = Inr settledDeployment \<and>
   AvailableReplicas (Status settledDeployment) = Replicas (Spec settledDeployment) \<and>
   strings_Contains (ResourceMetadata.Name (Metadata surplusDeployment)) ''web'' \<and>
   fst (waitForDeployment (quietTarget\<lparr>kubectl := quietKubectl\<lparr>deployments := [Inr [surplusDeployment]]\<rparr>\<rparr>)
          ''web'' freshState) \<noteq> Inr surplusDeployment \<and>
   Replicas (Spec surplusDeployment) < AvailableReplicas (Status surplusDeployment)"
proof -
  let ?settled = "quietTarget\<lparr>kubectl := quietKubectl\<lparr>deployments := [Inr [settledDeployment]]\<rparr>\<rparr>"
  let ?surplus = "quietTarget\<lparr>kubectl := quietKubectl\<lparr>deployments := [Inr [surplusDeployment]]\<rparr>\<rparr>"
  have name1: "strings_Contains (ResourceMetadata.Name (Metadata settledDeployment)) ''web''"
    and name2: "strings_Contains (ResourceMetadata.Name (Metadata surplusDeployment)) ''web''"
    by (simp_all add: settledDeployment_def surplusDeployment_def)
  have alone1: "deployments (kubectl ?settled) = [Inr [settledDeployment]]"
    and alone2: "deployments (kubectl ?surplus) = [Inr [surplusDeployment]]"
    by simp_all
  have rollout1: "RolloutStatus (kubectl ?settled) (ResourceMetadata.Name (Metadata settledDeployment)) = None"
    and rollout2: "RolloutStatus (kubectl ?surplus) (ResourceMetadata.Name (Metadata surplusDeployment)) = None"
    by (simp_all add: quietKubectl_def)
  have equal: "AvailableReplicas (Status settledDeployment) = Replicas (Spec settledDeployment)"
    and more: "Replicas (Spec surplusDeployment) < AvailableReplicas (Status surplusDeployment)"
    by (simp_all add: settledDeployment_def surplusDeployment_def)
  from waitForDeployment_ready_iff [of ?settled "''web''" freshState settledDeployment]
    name1 alone1 rollout1 equal
  have returned: "fst (waitForDeployment ?settled ''web'' freshState) = Inr settledDeployment"
    by blast
  from waitForDeployment_ready_iff [of ?surplus "''web''" freshState surplusDeployment]
    name2 alone2 rollout2 more
  have refused: "fst (waitForDeployment ?surplus ''web'' freshState) \<noteq> Inr surplusDeployment"
    by auto
  from name1 returned equal name2 refused more show ?thesis by (intro conjI)
qed


subsection \<open>Deploy\<close>

lemma strings_Split_nonempty: "strings_Split s sep \<noteq> []"
  by (induction s) (auto split: list.splits)

lemma strings_Split_first: "strings_Split s sep ! 0 = takeWhile (\<lambda>c. c \<noteq> sep) s"
proof (induction s)
  case Nil
  show ?case by simp
next
  case (Cons c s)
  then show ?case
    using strings_Split_nonempty [of s sep]
    by (cases "strings_Split s sep") auto
qed

lemma waitForDeployment_frame:
  "env (snd (waitForDeployment t deploymentNameFilter s)) = env s \<and>
   saved (snd (waitForDeployment t deploymentNameFilter s)) = saved s"
  by (simp add: waitForDeployment_def invoke_def Let_def split: sum.splits option.splits)

lemma Deploy_endpoints_effect:
  assumes "Endpoints lib (kubectl t) serviceConfig = Ok endpoints"
    and "Deploy_endpoints lib t serviceConfig package targetResource deployment s = (outcome, s')"
  shows "(endpoints \<noteq> [] \<longrightarrow>
            env s' =
              SetServiceProperty (env s) (ServiceConfig.Name serviceConfig) ''ENDPOINT_URL''
                (takeWhile (\<lambda>c. c \<noteq> CHR '','') (last endpoints)) \<and>
            saved s' = saved s @ [env s']) \<and>
         (endpoints = [] \<longrightarrow> env s' = env s \<and> saved s' = saved s)"
proof (cases "endpoints = []")
  case True
  with assms show ?thesis
    by (auto simp: Deploy_endpoints_def SetProgress_def Let_def)
next
  case False
  then have last: "endpoints ! (length endpoints - Suc 0) = last endpoints"
    by (simp add: last_conv_nth)
  from False assms show ?thesis
    by (auto simp: Deploy_endpoints_def SetProgress_def Let_def last strings_Split_first
        split: option.splits)
qed

text \<open>
  C7. Take a \<open>Deploy\<close> that reaches the resolution of the endpoints (the resource group is
  named, there is a package, the manifests apply, the wait for the deployment finds it or
  fails with \<open>ErrResourceNotFound\<close>) and for which \<open>Endpoints\<close> returns a list. If the list is
  not empty, the environment after the run is the one before it with the property
  \<open>ENDPOINT_URL\<close> of the service set to the text of the last endpoint before its first comma,
  and this environment was handed to \<open>envManager.Save\<close>, once. If the list is empty, the
  environment is the one before the run and nothing was handed to \<open>envManager.Save\<close>.
\<close>

theorem Deploy_persists_last_endpoint:
  assumes "ResourceGroupName targetResource \<noteq> ''''"
    and "packageOutput = Some package"
    and "Apply (kubectl t)
           (filepath_Join lib (ServiceConfig.RelativePath serviceConfig)
              (if DeploymentPath (K8s serviceConfig) = '''' then defaultDeploymentPath
               else DeploymentPath (K8s serviceConfig))) = None"
    and "\<forall>err. fst (waitForDeployment t
                      (if AksDeploymentOptions.Name (Deployment (K8s serviceConfig)) = ''''
                       then ServiceConfig.Name serviceConfig
                       else AksDeploymentOptions.Name (Deployment (K8s serviceConfig))) s) = Inl err
               \<longrightarrow> errors_Is err ErrResourceNotFound"
    and "Endpoints lib (kubectl t) serviceConfig = Ok endpoints"
    and "Deploy lib t serviceConfig packageOutput targetResource s = (outcome, s')"
  shows "(endpoints \<noteq> [] \<longrightarrow>
            env s' =
              SetServiceProperty (env s) (ServiceConfig.Name serviceConfig) ''ENDPOINT_URL''
                (takeWhile (\<lambda>c. c \<noteq> CHR '','') (last endpoints)) \<and>
            saved s' = saved s @ [env s']) \<and>
         (endpoints = [] \<longrightarrow> env s' = env s \<and> saved s' = saved s)"
proof -
  let ?deploymentName =
    "if AksDeploymentOptions.Name (Deployment (K8s serviceConfig)) = ''''
     then ServiceConfig.Name serviceConfig
     else AksDeploymentOptions.Name (Deployment (K8s serviceConfig))"
  let ?s5 = "SetProgress ''Verifying deployment''
               (invoke (CallApply
                          (filepath_Join lib (ServiceConfig.RelativePath serviceConfig)
                             (if DeploymentPath (K8s serviceConfig) = '''' then defaultDeploymentPath
                              else DeploymentPath (K8s serviceConfig))))
                  (SetProgress ''Applying k8s manifests''
                     (invoke (CallSetEnv (dotenv (env (s\<lparr>progress := progress s @ containerHelper t\<rparr>))))
                        (s\<lparr>progress := progress s @ containerHelper t\<rparr>))))"
  obtain waited s6 where waited: "waitForDeployment t ?deploymentName ?s5 = (waited, s6)"
    by (cases "waitForDeployment t ?deploymentName ?s5")
  have frame5: "env ?s5 = env s" "saved ?s5 = saved s"
    by (simp_all add: SetProgress_def invoke_def)
  from waitForDeployment_frame [of t ?deploymentName ?s5] waited frame5
  have frame6: "env s6 = env s" "saved s6 = saved s"
    by simp_all
  from waitForDeployment_fst [of t ?deploymentName ?s5 s] waited
  have "fst (waitForDeployment t ?deploymentName s) = waited" by simp
  with assms(4) have tolerated: "\<forall>err. waited = Inl err \<longrightarrow> errors_Is err ErrResourceNotFound"
    by simp
  have "\<exists>deployment.
          Deploy lib t serviceConfig packageOutput targetResource s =
          Deploy_endpoints lib t serviceConfig package targetResource deployment s6"
  proof (cases waited)
    case (Inl err)
    with tolerated have "errors_Is err ErrResourceNotFound" by simp
    with Inl waited assms(1,2,3) show ?thesis
      by (auto simp: Deploy_def validateTargetResource_def Let_def)
  next
    case (Inr deployment)
    with waited assms(1,2,3) show ?thesis
      by (auto simp: Deploy_def validateTargetResource_def Let_def)
  qed
  then obtain deployment where
    "Deploy_endpoints lib t serviceConfig package targetResource deployment s6 = (outcome, s')"
    using assms(6) by auto
  from Deploy_endpoints_effect [OF assms(5) this] frame6 show ?thesis
    by simp
qed


lemma Endpoints_nothing_found:
  "services cli = [] \<Longrightarrow> ingresses cli = [] \<Longrightarrow> Endpoints lib cli webConfig = Ok []"
  by (simp add: Endpoints_def webConfig_name getServiceEndpoints_no_cycles
      getIngressEndpoints_no_cycles)

lemma Endpoints_service_and_ingress:
  "services cli = [Inr [clusterIpService]] \<Longrightarrow> ingresses cli = [Inr [hostIngress]] \<Longrightarrow>
   Endpoints exampleStdlib cli webConfig =
     Ok [''http://10.0.0.5:8080, (Service, Type: ClusterIP)'',
         ''http://example.com/app, (Ingress, Type: LoadBalancer)'']"
  by (simp add: Endpoints_def webConfig_name getServiceEndpoints_clusterIpService
      getIngressEndpoints_hostIngress)

lemma waitForDeployment_no_cycles:
  "deployments (kubectl t) = [] \<Longrightarrow>
   fst (waitForDeployment t name s) = Inl ErrResourceNotFound"
  by (simp add: waitForDeployment_def WaitForResource_def)

theorem Deploy_persists_last_endpoint_witness:
  "serviceProperties
     (env (snd (Deploy exampleStdlib servingTarget webConfig (Some webPackage) aksResource freshState)))
     (''web'', ''ENDPOINT_URL'') = Some ''http://example.com/app'' \<and>
   saved (snd (Deploy exampleStdlib servingTarget webConfig (Some webPackage) aksResource freshState)) =
     [env (snd (Deploy exampleStdlib servingTarget webConfig (Some webPackage) aksResource freshState))] \<and>
   env (snd (Deploy exampleStdlib quietTarget webConfig (Some webPackage) aksResource freshState)) =
     env freshState \<and>
   saved (snd (Deploy exampleStdlib quietTarget webConfig (Some webPackage) aksResource freshState)) = []"
proof -
  let ?serving = "Deploy exampleStdlib servingTarget webConfig (Some webPackage) aksResource freshState"
  let ?quiet = "Deploy exampleStdlib quietTarget webConfig (Some webPackage) aksResource freshState"
  have group: "ResourceGroupName aksResource \<noteq> ''''"
    by (simp add: aksResource_def)
  have applied: "\<And>path. Apply (kubectl servingTarget) path = None"
    "\<And>path. Apply (kubectl quietTarget) path = None"
    by (simp_all add: servingTarget_def quietTarget_def quietKubectl_def)
  have absent: "\<And>name. fst (waitForDeployment servingTarget name freshState) = Inl ErrResourceNotFound"
    "\<And>name. fst (waitForDeployment quietTarget name freshState) = Inl ErrResourceNotFound"
    by (simp_all add: waitForDeployment_no_cycles servingTarget_def quietTarget_def quietKubectl_def)
  have tolerated:
    "\<forall>err. fst (waitForDeployment servingTarget
                    (if AksDeploymentOptions.Name (Deployment (K8s webConfig)) = ''''
                     then ServiceConfig.Name webConfig
                     else AksDeploymentOptions.Name (Deployment (K8s webConfig))) freshState) = Inl err
             \<longrightarrow> errors_Is err ErrResourceNotFound"
    "\<forall>err. fst (waitForDeployment quietTarget
                    (if AksDeploymentOptions.Name (Deployment (K8s webConfig)) = ''''
                     then ServiceConfig.Name webConfig
                     else AksDeploymentOptions.Name (Deployment (K8s webConfig))) freshState) = Inl err
             \<longrightarrow> errors_Is err ErrResourceNotFound"
    unfolding absent by simp_all
  have found: "Endpoints exampleStdlib (kubectl servingTarget) webConfig =
                 Ok [''http://10.0.0.5:8080, (Service, Type: ClusterIP)'',
                     ''http://example.com/app, (Ingress, Type: LoadBalancer)'']"
    by (rule Endpoints_service_and_ingress) (simp_all add: servingTarget_def)
  have unfound: "Endpoints exampleStdlib (kubectl quietTarget) webConfig = Ok []"
    by (rule Endpoints_nothing_found) (simp_all add: quietTarget_def quietKubectl_def)
  have url: "takeWhile (\<lambda>c. c \<noteq> CHR '','')
               (last [''http://10.0.0.5:8080, (Service, Type: ClusterIP)'',
                      ''http://example.com/app, (Ingress, Type: LoadBalancer)'']) =
             ''http://example.com/app''"
    by simp
  from Deploy_persists_last_endpoint
         [OF group refl applied(1) tolerated(1) found prod.collapse [symmetric]]
  have serving: "env (snd ?serving) =
                   SetServiceProperty (env freshState) (ServiceConfig.Name webConfig) ''ENDPOINT_URL''
                     ''http://example.com/app''"
    and saving: "saved (snd ?serving) = saved freshState @ [env (snd ?serving)]"
    unfolding url by simp_all
  from Deploy_persists_last_endpoint
         [OF group refl applied(2) tolerated(2) unfound prod.collapse [symmetric]]
  have quiet: "env (snd ?quiet) = env freshState" "saved (snd ?quiet) = saved freshState"
    by simp_all
  have "serviceProperties (env (snd ?serving)) (''web'', ''ENDPOINT_URL'') =
          Some ''http://example.com/app''"
    unfolding serving by (simp add: SetServiceProperty_def webConfig_def)
  moreover have "saved (snd ?serving) = [env (snd ?serving)]"
    using saving by (simp add: freshState_def)
  moreover have "saved (snd ?quiet) = []"
    using quiet(2) by (simp add: freshState_def)
  ultimately show ?thesis using quiet(1) by (intro conjI)
qed

subsection \<open>The cluster-context bootstrap\<close>

lemma ensureNamespace_calls:
  "calls (snd (ensureNamespace t namespace s)) =
     calls s @ CallCreateNamespace namespace #
       (case CreateNamespace (kubectl t) namespace of
          Inl err \<Rightarrow> []
        | Inr stdout \<Rightarrow> [CallApplyWithStdIn stdout])"
  by (simp add: ensureNamespace_def invoke_def Let_def split: sum.splits option.splits)

lemma ensureNamespace_ok:
  "fst (ensureNamespace t namespace s) = None \<longleftrightarrow>
     (\<exists>stdout. CreateNamespace (kubectl t) namespace = Inr stdout \<and>
               ApplyWithStdIn (kubectl t) stdout = None)"
  by (simp add: ensureNamespace_def invoke_def Let_def split: sum.splits option.splits)

lemma ensureClusterContext_override:
  "Getenv (env s) KubeConfigEnvVarName \<noteq> '''' \<Longrightarrow>
   ensureClusterContext t serviceConfig targetResource defaultNamespace s =
     (Ok (Getenv (env s) KubeConfigEnvVarName), s)"
  by (simp add: ensureClusterContext_def Let_def)

lemma ensureClusterContext_no_cluster_name:
  "Getenv (env s) KubeConfigEnvVarName = '''' \<Longrightarrow>
   LookupEnv (env s) AksClusterEnvVarName = None \<Longrightarrow>
   ensureClusterContext t serviceConfig targetResource defaultNamespace s =
     (Err (ErrNew (''could not determine AKS cluster, ensure '' @ AksClusterEnvVarName @
                   '' is set as an output of your infrastructure'')), s)"
  by (simp add: ensureClusterContext_def Let_def)

text \<open>
  C8, as the code has it. When the environment sets the kubeconfig override to a non-empty
  path, \<open>ensureClusterContext\<close> returns that path and leaves the state as it is: no
  credentials are fetched, no kubeconfig is parsed or merged, the cluster name is not read.
  \<open>setK8sContext\<close> resolves the target resource before that; when this succeeds, its
  invocations are, in order: set the environment of kubectl, set its kubeconfig, resolve the
  target resource, create the namespace (dry run) and, when that succeeds, apply it, then the
  message to the user before a deploy. When the override is unset or empty and the cluster
  name is not set, \<open>ensureClusterContext\<close> fails with the error that names the missing
  output, and \<open>setK8sContext\<close> fails: with that error when the target resource resolves,
  with the error of the resolution when it does not.
\<close>

theorem setK8sContext_kubeconfig_override:
  "(Getenv (env s) KubeConfigEnvVarName = path \<and> path \<noteq> '''' \<longrightarrow>
      ensureClusterContext t serviceConfig targetResource defaultNamespace s = (Ok path, s) \<and>
      (resourceManager t (GetSubscriptionId (env s)) serviceConfig = Inr targetResource \<longrightarrow>
         calls (snd (setK8sContext t serviceConfig eventName s)) =
           calls s @
           [CallSetEnv (dotenv (env s)), CallSetKubeConfig path,
            CallGetTargetResource (GetSubscriptionId (env s)),
            CallCreateNamespace (getK8sNamespace serviceConfig)] @
           (case CreateNamespace (kubectl t) (getK8sNamespace serviceConfig) of
              Inl err \<Rightarrow> []
            | Inr stdout \<Rightarrow>
                CallApplyWithStdIn stdout #
                (if ApplyWithStdIn (kubectl t) stdout = None \<and> eventName = ''predeploy''
                 then [CallMessage (''Using KUBECONFIG @ '' @ path @ [CHR 0x0A])]
                 else [])))) \<and>
   (Getenv (env s) KubeConfigEnvVarName = '''' \<and>
    LookupEnv (env s) AksClusterEnvVarName = None \<longrightarrow>
      ensureClusterContext t serviceConfig targetResource defaultNamespace s =
        (Err (ErrNew (''could not determine AKS cluster, ensure '' @ AksClusterEnvVarName @
                      '' is set as an output of your infrastructure'')), s) \<and>
      fst (setK8sContext t serviceConfig eventName s) =
        (case resourceManager t (GetSubscriptionId (env s)) serviceConfig of
           Inl err \<Rightarrow> Err err
         | Inr resolved \<Rightarrow>
             Err (ErrNew (''could not determine AKS cluster, ensure '' @ AksClusterEnvVarName @
                          '' is set as an output of your infrastructure''))))"
proof (intro conjI impI)
  assume "Getenv (env s) KubeConfigEnvVarName = path \<and> path \<noteq> ''''"
  then show "ensureClusterContext t serviceConfig targetResource defaultNamespace s = (Ok path, s)"
    using ensureClusterContext_override [of s t serviceConfig targetResource defaultNamespace]
    by simp
next
  assume override: "Getenv (env s) KubeConfigEnvVarName = path \<and> path \<noteq> ''''"
    and resolved: "resourceManager t (GetSubscriptionId (env s)) serviceConfig = Inr targetResource"
  let ?s3 = "invoke (CallGetTargetResource (GetSubscriptionId (env s)))
               (invoke (CallSetKubeConfig path) (invoke (CallSetEnv (dotenv (env s))) s))"
  let ?namespace = "getK8sNamespace serviceConfig"
  have env3: "env ?s3 = env s" by (simp add: invoke_def)
  with override have "Getenv (env ?s3) KubeConfigEnvVarName \<noteq> ''''" by simp
  from ensureClusterContext_override [OF this, of t serviceConfig targetResource ?namespace]
  have skipped: "ensureClusterContext t serviceConfig targetResource ?namespace ?s3 = (Ok path, ?s3)"
    using override env3 by simp
  obtain failure s5 where ensured: "ensureNamespace t ?namespace ?s3 = (failure, s5)"
    by (cases "ensureNamespace t ?namespace ?s3")
  have calls5: "calls s5 =
                  calls ?s3 @ CallCreateNamespace ?namespace #
                    (case CreateNamespace (kubectl t) ?namespace of
                       Inl err \<Rightarrow> []
                     | Inr stdout \<Rightarrow> [CallApplyWithStdIn stdout])"
    using ensureNamespace_calls [of t ?namespace ?s3] ensured by simp
  have ok: "failure = None \<longleftrightarrow>
              (\<exists>stdout. CreateNamespace (kubectl t) ?namespace = Inr stdout \<and>
                        ApplyWithStdIn (kubectl t) stdout = None)"
    using ensureNamespace_ok [of t ?namespace ?s3] ensured by simp
  have run: "snd (setK8sContext t serviceConfig eventName s) =
               (case failure of
                  Some err \<Rightarrow> s5
                | None \<Rightarrow>
                    if eventName = ''predeploy''
                    then invoke (CallMessage (''Using KUBECONFIG @ '' @ path @ [CHR 0x0A])) s5
                    else s5)"
    using override resolved skipped ensured
    by (simp add: setK8sContext_def Let_def invoke_def split: option.splits)
  show "calls (snd (setK8sContext t serviceConfig eventName s)) =
          calls s @
          [CallSetEnv (dotenv (env s)), CallSetKubeConfig path,
           CallGetTargetResource (GetSubscriptionId (env s)),
           CallCreateNamespace (getK8sNamespace serviceConfig)] @
          (case CreateNamespace (kubectl t) (getK8sNamespace serviceConfig) of
             Inl err \<Rightarrow> []
           | Inr stdout \<Rightarrow>
               CallApplyWithStdIn stdout #
               (if ApplyWithStdIn (kubectl t) stdout = None \<and> eventName = ''predeploy''
                then [CallMessage (''Using KUBECONFIG @ '' @ path @ [CHR 0x0A])]
                else []))"
  proof (cases "CreateNamespace (kubectl t) ?namespace")
    case (Inl err)
    with ok have "failure \<noteq> None" by simp
    with run calls5 Inl show ?thesis
      by (auto simp: invoke_def)
  next
    case (Inr stdout)
    show ?thesis
    proof (cases "ApplyWithStdIn (kubectl t) stdout")
      case None
      with ok Inr have "failure = None" by simp
      with run calls5 Inr None show ?thesis
        by (simp add: invoke_def)
    next
      case (Some err)
      with ok Inr have "failure \<noteq> None" by simp
      with run calls5 Inr Some show ?thesis
        by (auto simp: invoke_def)
    qed
  qed
next
  assume "Getenv (env s) KubeConfigEnvVarName = '''' \<and> LookupEnv (env s) AksClusterEnvVarName = None"
  then show "ensureClusterContext t serviceConfig targetResource defaultNamespace s =
               (Err (ErrNew (''could not determine AKS cluster, ensure '' @ AksClusterEnvVarName @
                             '' is set as an output of your infrastructure'')), s)"
    by (simp add: ensureClusterContext_no_cluster_name)
next
  assume missing: "Getenv (env s) KubeConfigEnvVarName = '''' \<and>
                   LookupEnv (env s) AksClusterEnvVarName = None"
  let ?s3 = "invoke (CallGetTargetResource (GetSubscriptionId (env s)))
               (invoke (CallSetEnv (dotenv (env s))) s)"
  have env3: "env ?s3 = env s" by (simp add: invoke_def)
  show "fst (setK8sContext t serviceConfig eventName s) =
          (case resourceManager t (GetSubscriptionId (env s)) serviceConfig of
             Inl err \<Rightarrow> Err err
           | Inr resolved \<Rightarrow>
               Err (ErrNew (''could not determine AKS cluster, ensure '' @ AksClusterEnvVarName @
                            '' is set as an output of your infrastructure'')))"
  proof (cases "resourceManager t (GetSubscriptionId (env s)) serviceConfig")
    case (Inl err)
    with missing show ?thesis
      by (simp add: setK8sContext_def Let_def invoke_def)
  next
    case (Inr resolved)
    from missing env3 have
      "ensureClusterContext t serviceConfig resolved (getK8sNamespace serviceConfig) ?s3 =
         (Err (ErrNew (''could not determine AKS cluster, ensure '' @ AksClusterEnvVarName @
                       '' is set as an output of your infrastructure'')), ?s3)"
      by (simp add: ensureClusterContext_no_cluster_name)
    with missing Inr show ?thesis
      by (simp add: setK8sContext_def Let_def invoke_def)
  qed
qed


theorem setK8sContext_kubeconfig_override_witness:
  "Getenv (env overrideState) KubeConfigEnvVarName = ''/home/dev/kubeconfig'' \<and>
   ensureClusterContext quietTarget webConfig aksResource ''todo'' overrideState =
     (Ok ''/home/dev/kubeconfig'', overrideState) \<and>
   resourceManager quietTarget (GetSubscriptionId (env overrideState)) webConfig = Inr aksResource \<and>
   calls (snd (setK8sContext quietTarget webConfig ''predeploy'' overrideState)) =
     [CallSetEnv (dotenv (env overrideState)), CallSetKubeConfig ''/home/dev/kubeconfig'',
      CallGetTargetResource '''', CallCreateNamespace ''todo'',
      CallApplyWithStdIn ''kind: Namespace, name: todo'',
      CallMessage (''Using KUBECONFIG @ /home/dev/kubeconfig'' @ [CHR 0x0A])] \<and>
   Getenv (env freshState) KubeConfigEnvVarName = '''' \<and>
   LookupEnv (env freshState) AksClusterEnvVarName = None \<and>
   fst (setK8sContext quietTarget webConfig ''predeploy'' freshState) =
     Err (ErrNew (''could not determine AKS cluster, ensure '' @ AksClusterEnvVarName @
                  '' is set as an output of your infrastructure''))"
proof -
  have override: "Getenv (env overrideState) KubeConfigEnvVarName = ''/home/dev/kubeconfig''"
    by (simp add: Getenv_def overrideState_def KubeConfigEnvVarName_def)
  have nonempty: "''/home/dev/kubeconfig'' \<noteq> ''''" by simp
  have subscription: "GetSubscriptionId (env overrideState) = ''''"
    by (simp add: GetSubscriptionId_def Getenv_def overrideState_def SubscriptionIdEnvVarName_def
        KubeConfigEnvVarName_def)
  have resolved: "\<And>subscriptionId. resourceManager quietTarget subscriptionId webConfig = Inr aksResource"
    by (simp add: quietTarget_def)
  have namespace_name: "getK8sNamespace webConfig = ''todo''"
    by (simp add: getK8sNamespace_def webConfig_def)
  have created: "CreateNamespace (kubectl quietTarget) ''todo'' = Inr ''kind: Namespace, name: todo''"
    and applied: "\<And>input. ApplyWithStdIn (kubectl quietTarget) input = None"
    by (simp_all add: quietTarget_def quietKubectl_def)
  have unset: "Getenv (env freshState) KubeConfigEnvVarName = ''''"
    and unnamed: "LookupEnv (env freshState) AksClusterEnvVarName = None"
    by (simp_all add: Getenv_def LookupEnv_def freshState_def)
  note overridden = setK8sContext_kubeconfig_override
    [of overrideState "''/home/dev/kubeconfig''" quietTarget webConfig aksResource "''todo''"
        "''predeploy''"]
  note missing = setK8sContext_kubeconfig_override
    [of freshState "''''" quietTarget webConfig aksResource "''todo''" "''predeploy''"]
  from overridden override nonempty
  have skipped: "ensureClusterContext quietTarget webConfig aksResource ''todo'' overrideState =
                   (Ok ''/home/dev/kubeconfig'', overrideState)"
    by blast
  from overridden override nonempty resolved
  have "calls (snd (setK8sContext quietTarget webConfig ''predeploy'' overrideState)) =
          calls overrideState @
          [CallSetEnv (dotenv (env overrideState)), CallSetKubeConfig ''/home/dev/kubeconfig'',
           CallGetTargetResource (GetSubscriptionId (env overrideState)),
           CallCreateNamespace (getK8sNamespace webConfig)] @
          (case CreateNamespace (kubectl quietTarget) (getK8sNamespace webConfig) of
             Inl err \<Rightarrow> []
           | Inr stdout \<Rightarrow>
               CallApplyWithStdIn stdout #
               (if ApplyWithStdIn (kubectl quietTarget) stdout = None \<and> ''predeploy'' = ''predeploy''
                then [CallMessage (''Using KUBECONFIG @ '' @ ''/home/dev/kubeconfig'' @ [CHR 0x0A])]
                else []))"
    by blast
  then have invoked:
    "calls (snd (setK8sContext quietTarget webConfig ''predeploy'' overrideState)) =
       [CallSetEnv (dotenv (env overrideState)), CallSetKubeConfig ''/home/dev/kubeconfig'',
        CallGetTargetResource '''', CallCreateNamespace ''todo'',
        CallApplyWithStdIn ''kind: Namespace, name: todo'',
        CallMessage (''Using KUBECONFIG @ /home/dev/kubeconfig'' @ [CHR 0x0A])]"
    unfolding subscription namespace_name created applied
    by (simp add: overrideState_def)
  from missing unset unnamed
  have "fst (setK8sContext quietTarget webConfig ''predeploy'' freshState) =
          (case resourceManager quietTarget (GetSubscriptionId (env freshState)) webConfig of
             Inl err \<Rightarrow> Err err
           | Inr resolved \<Rightarrow>
               Err (ErrNew (''could not determine AKS cluster, ensure '' @ AksClusterEnvVarName @
                            '' is set as an output of your infrastructure'')))"
    by blast
  then have failed:
    "fst (setK8sContext quietTarget webConfig ''predeploy'' freshState) =
       Err (ErrNew (''could not determine AKS cluster, ensure '' @ AksClusterEnvVarName @
                    '' is set as an output of your infrastructure''))"
    unfolding resolved by simp
  from override skipped resolved [of "GetSubscriptionId (env overrideState)"] invoked unset unnamed failed
  show ?thesis by (intro conjI)
qed

text \<open>
  The claim as written fails when the target resource does not resolve: the override is set,
  and the run ends with the error of the resolution after three invocations, none of which
  creates the namespace.
\<close>

theorem setK8sContext_kubeconfig_override_counterexample:
  "Getenv (env overrideState) KubeConfigEnvVarName = ''/home/dev/kubeconfig'' \<and>
   fst (setK8sContext unresolvedTarget webConfig ''predeploy'' overrideState) =
     Err (ErrNew ''resource group not found'') \<and>
   calls (snd (setK8sContext unresolvedTarget webConfig ''predeploy'' overrideState)) =
     [CallSetEnv (dotenv (env overrideState)), CallSetKubeConfig ''/home/dev/kubeconfig'',
      CallGetTargetResource '''']"
proof -
  have override: "Getenv (env overrideState) KubeConfigEnvVarName = ''/home/dev/kubeconfig''"
    by (simp add: Getenv_def overrideState_def KubeConfigEnvVarName_def)
  have subscription: "GetSubscriptionId (env overrideState) = ''''"
    by (simp add: GetSubscriptionId_def Getenv_def overrideState_def SubscriptionIdEnvVarName_def
        KubeConfigEnvVarName_def)
  have unresolved: "resourceManager unresolvedTarget '''' webConfig =
                      Inl (ErrNew ''resource group not found'')"
    by (simp add: unresolvedTarget_def unresolvedResource_def)
  have run: "setK8sContext unresolvedTarget webConfig ''predeploy'' overrideState =
               (Err (ErrNew ''resource group not found''),
                invoke (CallGetTargetResource '''')
                  (invoke (CallSetKubeConfig ''/home/dev/kubeconfig'')
                     (invoke (CallSetEnv (dotenv (env overrideState))) overrideState)))"
    by (simp add: setK8sContext_def Let_def invoke_def override subscription unresolved)
  have "calls overrideState = []" by (simp add: overrideState_def)
  with run override show ?thesis
    by (simp add: invoke_def)
qed


end
